theory Spec2Isabelle
  imports Main "HOL-Library.Word"
begin

unbundle bit_operations_syntax

section \<open>Basic types\<close>

text \<open>
  Go's fixed-width integers are words, so that arithmetic wraps as it does in Go; a signed
  comparison of two \<open>int64\<close> values is a comparison of their \<open>sint\<close> readings.
  \<open>util.Uint160\<close> and \<open>util.Uint256\<close> are byte arrays (20 and 32 bytes); they are kept here
  as the byte list that \<open>BytesBE\<close> returns. A Go \<open>string\<close> that comes from a byte slice or
  goes to one keeps its bytes, so such strings are byte lists too.
\<close>

type_synonym byte = "8 word"
type_synonym bytes = "byte list"
type_synonym int64 = "64 word"
type_synonym uint32 = "32 word"
type_synonym Uint160 = bytes
type_synonym Uint256 = bytes

text \<open>\<open>[]byte("...")\<close> of a string literal.\<close>

definition bytes_of :: "string \<Rightarrow> bytes" where
  "bytes_of s = map (\<lambda>c. of_nat (of_char c)) s"

text \<open>
  A Go panic inside an interop handler aborts the VM invocation (the handlers run under
  the VM's panic protection); a function that can panic returns \<open>Panic\<close> or \<open>Ret\<close> of its
  ordinary result.
\<close>

datatype 'a res = Panic | Ret 'a

datatype error =
    ErrKeyNotFound
  | ErrDecode
  | ErrNegativeAmount
  | ErrInsufficientFunds
  | ErrInvalidHash
  | ErrMethodNotFound bytes
  | ErrMoreSignatures
  | ErrWrongParameters
  | ErrAssetID
  | ErrContractHash
  | ErrOther string

section \<open>Transfer log keys\<close>

definition Uint160Size :: nat where
  "Uint160Size = 20"

text \<open>
  Modelled from the spec: the constant \<open>storage.STNEP5Transfers\<close> is declared in the storage
  package, which is not part of the sources at hand; the key layout of the spec gives the
  prefix of NEP-5 transfers as \<open>0xA2\<close>.
\<close>

definition STNEP5Transfers :: byte where
  "STNEP5Transfers = 0xA2"

text \<open>\<open>make([]byte, n)\<close>: n zero bytes.\<close>

definition make_bytes :: "nat \<Rightarrow> bytes" where
  "make_bytes n = replicate n 0"

text \<open>
  \<open>copy(dst[off:], src)\<close>: copies \<open>min (len dst - off) (len src)\<close> bytes and leaves the rest
  of \<open>dst\<close> as it was.
\<close>

definition copy_at :: "bytes \<Rightarrow> nat \<Rightarrow> bytes \<Rightarrow> bytes" where
  "copy_at dst off src =
     take off dst @ take (length dst - off) src @ drop (off + length src) dst"

text \<open>
  \<open>binary.LittleEndian.PutUint32(b[off:], v)\<close>: writes the four bytes of \<open>v\<close>, lowest first,
  at offsets \<open>off .. off + 3\<close>; Go panics when the slice \<open>b[off:]\<close> has fewer than four bytes.
\<close>

definition PutUint32 :: "bytes \<Rightarrow> nat \<Rightarrow> uint32 \<Rightarrow> bytes res" where
  "PutUint32 b off v =
     (if off + 4 \<le> length b
      then Ret (b[off := ucast v,
                 off + 1 := ucast (drop_bit 8 v),
                 off + 2 := ucast (drop_bit 16 v),
                 off + 3 := ucast (drop_bit 24 v)])
      else Panic)"

definition getNEP5TransferLogKey :: "Uint160 \<Rightarrow> uint32 \<Rightarrow> bytes res" where
  "getNEP5TransferLogKey acc index =
     (let key = make_bytes (1 + Uint160Size + 4);
          key = key[0 := STNEP5Transfers];
          key = copy_at key 1 acc
      in PutUint32 key Uint160Size index)"

text \<open>
  The key as the specification words it: the prefix, then the 20 bytes of the account hash,
  then the page index in four little-endian bytes.
\<close>

definition le32 :: "uint32 \<Rightarrow> bytes" where
  "le32 v = [ucast v, ucast (drop_bit 8 v), ucast (drop_bit 16 v), ucast (drop_bit 24 v)]"

definition NEP5TransferLogKey_spec :: "Uint160 \<Rightarrow> uint32 \<Rightarrow> bytes" where
  "NEP5TransferLogKey_spec acc index = STNEP5Transfers # acc @ le32 index"

definition acc_1_to_20 :: Uint160 where
  "acc_1_to_20 = [1, 2, 3, 4, 5, 6, 7, 8, 9, 10, 11, 12, 13, 14, 15, 16, 17, 18, 19, 20]"

section \<open>Stack items\<close>

text \<open>
  The VM's stack items, as far as the native contracts build and read them. \<open>NilItem\<close> is
  the nil interface value that \<open>addrToStackItem\<close> returns for a nil address.
\<close>

datatype StackItem =
    NilItem
  | BoolItem bool
  | BigIntegerItem int
  | ByteArrayItem bytes
  | ArrayItem "StackItem list"
  | StructItem "StackItem list"

definition NewBoolItem :: "bool \<Rightarrow> StackItem" where
  "NewBoolItem b = BoolItem b"

text \<open>\<open>vm.NewBigIntegerItem(v)\<close> of an \<open>int64\<close>: the integer that the 64 bits stand for.\<close>

definition NewBigIntegerItem :: "int64 \<Rightarrow> StackItem" where
  "NewBigIntegerItem v = BigIntegerItem (sint v)"

text \<open>
  The conversions \<open>TryBytes\<close> and \<open>TryInteger\<close> of a stack item belong to the vm package,
  which is not part of the sources at hand; the handlers take them as parameters.
\<close>

record conversions =
  TryBytes :: "StackItem \<Rightarrow> error + bytes"
  TryInteger :: "StackItem \<Rightarrow> error + int"

text \<open>Sequencing of steps that may panic.\<close>

fun rbind :: "'a res \<Rightarrow> ('a \<Rightarrow> 'b res) \<Rightarrow> 'b res" where
  "rbind Panic f = Panic"
| "rbind (Ret x) f = f x"

text \<open>\<open>args[i]\<close>: Go panics when the index is out of range.\<close>

definition arg :: "StackItem list \<Rightarrow> nat \<Rightarrow> StackItem res" where
  "arg args i = (if i < length args then Ret (args ! i) else Panic)"

text \<open>\<open>bi.Int64()\<close> keeps the low 64 bits of the big integer.\<close>

definition toInt64 :: "conversions \<Rightarrow> StackItem \<Rightarrow> int64 res" where
  "toInt64 L s = (case TryInteger L s of Inl e \<Rightarrow> Panic | Inr bi \<Rightarrow> Ret (word_of_int bi))"

text \<open>\<open>util.Uint160DecodeBytesBE\<close> accepts exactly \<open>Uint160Size\<close> bytes.\<close>

definition toUint160 :: "conversions \<Rightarrow> StackItem \<Rightarrow> Uint160 res" where
  "toUint160 L s =
     (case TryBytes L s of
        Inl e \<Rightarrow> Panic
      | Inr buf \<Rightarrow> if length buf = Uint160Size then Ret buf else Panic)"

section \<open>Ledger state and the data access object\<close>

record NEP5BalanceState =
  Balance :: int64

record NEOBalanceState = NEP5BalanceState +
  BalanceHeight :: uint32

text \<open>
  Modelled from the spec: \<open>state.Account\<close>, \<open>state.Asset\<close>, \<open>state.Contract\<close>,
  \<open>state.Validator\<close> and \<open>state.ValidatorsCount\<close> are declared in the state package, of which
  only the balance states are part of the sources at hand. The records keep the fields that
  the code under study reads or writes: an account has its script hash, a NEO balance with
  its balance height and a GAS balance; an asset has its id, a contract its script (whose
  hash is the contract's script hash), a validator its public key, registration flag and
  votes. \<open>NewAccount\<close> is the account of a hash with zero balances.
\<close>

record Account =
  ScriptHash :: Uint160
  NEO :: NEOBalanceState
  GAS :: NEP5BalanceState

definition NewAccount :: "Uint160 \<Rightarrow> Account" where
  "NewAccount h =
     \<lparr>ScriptHash = h, NEO = \<lparr>Balance = 0, BalanceHeight = 0\<rparr>, GAS = \<lparr>Balance = 0\<rparr>\<rparr>"

record Asset =
  ID :: Uint256
  AssetData :: bytes

record Contract =
  Script :: bytes
  ContractData :: bytes

record 'k Validator =
  PublicKey :: 'k
  Registered :: bool
  Votes :: int64

text \<open>
  Public keys are values of a linearly ordered type \<open>'k\<close>: the order is the one that
  \<open>PublicKey.Cmp\<close> decides (the keys package is not part of the sources at hand).

  Modelled from the spec: the store under the DAO (storage.MemCachedStore) is not part of
  the sources at hand. The spec describes it as a key-value overlay whose \<open>Put\<close> records the
  entry and whose \<open>Get\<close> reports not-found for an absent key. Each key prefix is kept as a
  map of its own from the identifier that follows the prefix to the stored bytes, and the
  stored bytes are either \<open>Encoded x\<close>, the encoding of a value \<open>x\<close>, or \<open>Undecodable\<close>, bytes
  on which \<open>DecodeBinary\<close> sets the reader's error. Encoding into a buffer and \<open>Put\<close> into the
  overlay do not fail. The entries of the validators are a list of keys with their stored
  bytes, which stands for the entries that \<open>Seek\<close> visits; a new key is added at the end,
  the place that its key bytes give it among the others is not modelled.
\<close>

datatype 'a stored = Undecodable | Encoded 'a

record 'k dao =
  accounts :: "Uint160 \<rightharpoonup> Account stored"
  assets :: "Uint256 \<rightharpoonup> Asset stored"
  contracts :: "Uint160 \<rightharpoonup> Contract stored"
  validators :: "('k \<times> 'k Validator stored) list"
  validatorsCount :: "int64 list stored option"

text \<open>\<open>GetAndDecode\<close> on one prefix: the store's error, the reader's error, or the value.\<close>

definition GetAndDecode :: "'a stored option \<Rightarrow> error + 'a" where
  "GetAndDecode entry =
     (case entry of
        None \<Rightarrow> Inl ErrKeyNotFound
      | Some Undecodable \<Rightarrow> Inl ErrDecode
      | Some (Encoded x) \<Rightarrow> Inr x)"

definition GetAccountState :: "'k dao \<Rightarrow> Uint160 \<Rightarrow> error + Account" where
  "GetAccountState d h = GetAndDecode (accounts d h)"

definition GetAccountStateOrNew :: "'k dao \<Rightarrow> Uint160 \<Rightarrow> error + Account" where
  "GetAccountStateOrNew d h =
     (case GetAccountState d h of
        Inl err \<Rightarrow> if err \<noteq> ErrKeyNotFound then Inl err else Inr (NewAccount h)
      | Inr account \<Rightarrow> Inr account)"

definition PutAccountState :: "Account \<Rightarrow> 'k dao \<Rightarrow> 'k dao" where
  "PutAccountState as d = d\<lparr>accounts := (accounts d)(ScriptHash as \<mapsto> Encoded as)\<rparr>"

definition GetAssetState :: "'k dao \<Rightarrow> Uint256 \<Rightarrow> error + Asset" where
  "GetAssetState d assetID =
     (case GetAndDecode (assets d assetID) of
        Inl err \<Rightarrow> Inl err
      | Inr asset \<Rightarrow> if ID asset \<noteq> assetID then Inl ErrAssetID else Inr asset)"

text \<open>
  \<open>contract.ScriptHash()\<close> is the 160-bit hash of the contract's script; the hash function
  (crypto/hash) is a parameter.
\<close>

definition Contract_ScriptHash :: "(bytes \<Rightarrow> Uint160) \<Rightarrow> Contract \<Rightarrow> Uint160" where
  "Contract_ScriptHash Hash160 cs = Hash160 (Script cs)"

definition GetContractState :: "(bytes \<Rightarrow> Uint160) \<Rightarrow> 'k dao \<Rightarrow> Uint160 \<Rightarrow> error + Contract" where
  "GetContractState Hash160 d h =
     (case GetAndDecode (contracts d h) of
        Inl err \<Rightarrow> Inl err
      | Inr contract \<Rightarrow>
          if Contract_ScriptHash Hash160 contract \<noteq> h then Inl ErrContractHash
          else Inr contract)"

definition GetValidatorState :: "'k dao \<Rightarrow> 'k \<Rightarrow> error + 'k Validator" where
  "GetValidatorState d publicKey = GetAndDecode (map_of (validators d) publicKey)"

text \<open>Writing a key of the store replaces the entry of that key or adds a new one.\<close>

fun store_put :: "'a \<Rightarrow> 'b \<Rightarrow> ('a \<times> 'b) list \<Rightarrow> ('a \<times> 'b) list" where
  "store_put k v [] = [(k, v)]"
| "store_put k v ((k', v') # kvs) =
     (if k' = k then (k, v) # kvs else (k', v') # store_put k v kvs)"

definition PutValidatorState :: "'k Validator \<Rightarrow> 'k dao \<Rightarrow> 'k dao" where
  "PutValidatorState vs d =
     d\<lparr>validators := store_put (PublicKey vs) (Encoded vs) (validators d)\<rparr>"

text \<open>\<open>dao.GetValidators\<close>: the entries that decode, in the order of the store.\<close>

fun decoded :: "('a \<times> 'b stored) list \<Rightarrow> 'b list" where
  "decoded [] = []"
| "decoded ((k, Undecodable) # kvs) = decoded kvs"
| "decoded ((k, Encoded v) # kvs) = v # decoded kvs"

definition GetValidators :: "'k dao \<Rightarrow> 'k Validator list" where
  "GetValidators d = decoded (validators d)"

section \<open>The interop context and the native tokens\<close>

record NotificationEvent =
  NotificationScriptHash :: Uint160
  Item :: StackItem

text \<open>
  Of the \<open>Blockchainer\<close> behind the interop context the native contracts call
  \<open>CalculateClaimable\<close> and \<open>GetStandByValidators\<close>; the implementation is not part of the
  sources at hand, so both are fields of a record of functions. The \<open>block\<close> of the context
  is nil or a block, of which only the index is read.
\<close>

record 'k Blockchainer =
  CalculateClaimable :: "int64 \<Rightarrow> uint32 \<Rightarrow> uint32 \<Rightarrow> error + (int64 \<times> int64)"
  GetStandByValidators :: "error + 'k list"

record 'k interopContext =
  bc :: "'k Blockchainer"
  block :: "uint32 option"
  dao :: "'k dao"
  notifications :: "NotificationEvent list"

record nep5TokenNative =
  name :: string
  symbol :: string
  decimals :: int64
  factor :: int64
  totalSupply :: int64
  hash :: Uint160

text \<open>
  The native methods change the interop context and the token structs \<open>neoNative\<close> and
  \<open>gasNative\<close> (each holds a pointer to the other); the state they run on has all three.
  The receiver \<open>c\<close> of a method of \<open>nep5TokenNative\<close> is one of the two structs.
\<close>

record 'k machine = "'k interopContext" +
  neo :: nep5TokenNative
  gas :: nep5TokenNative

datatype native = NEO_native | GAS_native

fun token :: "native \<Rightarrow> 'k machine \<Rightarrow> nep5TokenNative" where
  "token NEO_native m = neo m"
| "token GAS_native m = gas m"

text \<open>\<open>c.totalSupply += amount\<close>.\<close>

fun add_totalSupply :: "native \<Rightarrow> int64 \<Rightarrow> 'k machine \<Rightarrow> 'k machine" where
  "add_totalSupply NEO_native amount m = m\<lparr>neo := (neo m)\<lparr>totalSupply := totalSupply (neo m) + amount\<rparr>\<rparr>"
| "add_totalSupply GAS_native amount m = m\<lparr>gas := (gas m)\<lparr>totalSupply := totalSupply (gas m) + amount\<rparr>\<rparr>"

text \<open>\<open>ic.dao.PutAccountState(acc)\<close>.\<close>

definition putAccount :: "Account \<Rightarrow> 'k machine \<Rightarrow> 'k machine" where
  "putAccount acc m = m\<lparr>dao := PutAccountState acc (dao m)\<rparr>"

definition addrToStackItem :: "Uint160 option \<Rightarrow> StackItem" where
  "addrToStackItem u = (case u of None \<Rightarrow> NilItem | Some h \<Rightarrow> ByteArrayItem h)"

definition TransferEvent :: "Uint160 \<Rightarrow> Uint160 option \<Rightarrow> Uint160 option \<Rightarrow> int64 \<Rightarrow> NotificationEvent" where
  "TransferEvent h from to amount =
     \<lparr>NotificationScriptHash = h,
      Item = ArrayItem [ByteArrayItem (bytes_of ''Transfer''),
                        addrToStackItem from,
                        addrToStackItem to,
                        NewBigIntegerItem amount]\<rparr>"

definition emitTransfer :: "native \<Rightarrow> Uint160 option \<Rightarrow> Uint160 option \<Rightarrow> int64 \<Rightarrow> 'k machine \<Rightarrow> 'k machine" where
  "emitTransfer c from to amount m =
     m\<lparr>notifications := notifications m @ [TransferEvent (hash (token c m)) from to amount]\<rparr>"

text \<open>
  The field \<open>incBalance\<close> of a token is a function of the context, an account and an amount
  that returns an error or nil; it changes the account it is given and, for the governance
  token, the context. The methods of \<open>nep5TokenNative\<close> take it as the parameter \<open>incB\<close>.
\<close>

type_synonym 'k incBalanceFn =
  "'k machine \<Rightarrow> Account \<Rightarrow> int64 \<Rightarrow> (error option \<times> Account \<times> 'k machine) res"

definition gasNative_increaseBalance :: "'k incBalanceFn" where
  "gasNative_increaseBalance m acc amount =
     (if amount = 0 then Ret (None, acc, m)
      else if sint amount < 0 \<and> sint (Balance (GAS acc)) < sint (- amount)
      then Ret (Some ErrInsufficientFunds, acc, m)
      else Ret (None, acc\<lparr>GAS := (GAS acc)\<lparr>Balance := Balance (GAS acc) + amount\<rparr>\<rparr>, m))"

definition nep5TokenNative_mint :: "'k incBalanceFn \<Rightarrow> native \<Rightarrow> Uint160 \<Rightarrow> int64 \<Rightarrow> 'k machine \<Rightarrow> 'k machine res" where
  "nep5TokenNative_mint incB c h amount m =
     (if sint amount < 0 then Panic
      else if amount = 0 then Ret m
      else case GetAccountStateOrNew (dao m) h of
             Inl err \<Rightarrow> Panic
           | Inr acc \<Rightarrow>
               (case incB m acc amount of
                  Panic \<Rightarrow> Panic
                | Ret (Some err, acc', m') \<Rightarrow> Panic
                | Ret (None, acc', m') \<Rightarrow>
                    Ret (emitTransfer c None (Some h) amount
                          (add_totalSupply c amount (putAccount acc' m')))))"

definition nep5TokenNative_burn :: "'k incBalanceFn \<Rightarrow> native \<Rightarrow> Uint160 \<Rightarrow> int64 \<Rightarrow> 'k machine \<Rightarrow> 'k machine res" where
  "nep5TokenNative_burn incB c h amount m =
     (if sint amount < 0 then Panic
      else if amount = 0 then Ret m
      else case GetAccountStateOrNew (dao m) h of
             Inl err \<Rightarrow> Panic
           | Inr acc \<Rightarrow>
               (case incB m acc (- amount) of
                  Panic \<Rightarrow> Panic
                | Ret (Some err, acc', m') \<Rightarrow> Panic
                | Ret (None, acc', m') \<Rightarrow>
                    Ret (emitTransfer c (Some h) None amount
                          (add_totalSupply c (- amount) (putAccount acc' m')))))"

text \<open>
  \<open>transfer\<close> returns an error or nil; the context keeps what was written before an error
  is returned.
\<close>

definition nep5TokenNative_transfer :: "'k incBalanceFn \<Rightarrow> native \<Rightarrow> Uint160 \<Rightarrow> Uint160 \<Rightarrow> int64 \<Rightarrow> 'k machine \<Rightarrow> (error option \<times> 'k machine) res" where
  "nep5TokenNative_transfer incB c from to amount m =
     (if sint amount < 0 then Ret (Some ErrNegativeAmount, m)
      else case GetAccountStateOrNew (dao m) from of
             Inl err \<Rightarrow> Ret (Some err, m)
           | Inr accFrom \<Rightarrow>
               (let isEmpty = (from = to \<or> amount = 0);
                    inc = (if isEmpty then 0 else amount)
                in case incB m accFrom inc of
                     Panic \<Rightarrow> Panic
                   | Ret (Some err, accFrom', m1) \<Rightarrow> Ret (Some err, m1)
                   | Ret (None, accFrom', m1) \<Rightarrow>
                       (let m2 = putAccount accFrom' m1
                        in if \<not> isEmpty
                           then (case GetAccountStateOrNew (dao m2) to of
                                   Inl err \<Rightarrow> Ret (Some err, m2)
                                 | Inr accTo \<Rightarrow>
                                     (case incB m2 accTo amount of
                                        Panic \<Rightarrow> Panic
                                      | Ret (Some err, accTo', m3) \<Rightarrow> Ret (Some err, m3)
                                      | Ret (None, accTo', m3) \<Rightarrow>
                                          Ret (None, emitTransfer c (Some from) (Some to) amount
                                                       (putAccount accTo' m3))))
                           else Ret (None, emitTransfer c (Some from) (Some to) amount m2))))"

text \<open>The method \<open>Transfer\<close>: the arguments are converted, the result is a boolean item.\<close>

definition nep5TokenNative_Transfer :: "conversions \<Rightarrow> 'k incBalanceFn \<Rightarrow> native \<Rightarrow> StackItem list \<Rightarrow> 'k machine \<Rightarrow> (StackItem \<times> 'k machine) res" where
  "nep5TokenNative_Transfer L incB c args m =
     rbind (arg args 0) (\<lambda>a0. rbind (toUint160 L a0) (\<lambda>from.
     rbind (arg args 1) (\<lambda>a1. rbind (toUint160 L a1) (\<lambda>to.
     rbind (arg args 2) (\<lambda>a2. rbind (toInt64 L a2) (\<lambda>amount.
     rbind (nep5TokenNative_transfer incB c from to amount m)
       (\<lambda>(err, m'). Ret (NewBoolItem (err = None), m'))))))))"

subsection \<open>The governance token\<close>

text \<open>
  \<open>distributeGas\<close> mints the claimable gas to the account's script hash: \<open>n.gas.mint\<close> reads
  the account from the DAO again, changes that copy and stores it; the account \<open>acc\<close> held by
  the caller only gets its balance height set.
\<close>

definition neoNative_distributeGas :: "'k machine \<Rightarrow> Account \<Rightarrow> (error option \<times> Account \<times> 'k machine) res" where
  "neoNative_distributeGas m acc =
     (case block m of
        None \<Rightarrow> Ret (None, acc, m)
      | Some index \<Rightarrow>
          (case CalculateClaimable (bc m) (Balance (NEO acc)) (BalanceHeight (NEO acc)) index of
             Inl err \<Rightarrow> Ret (Some err, acc, m)
           | Inr (sys, net) \<Rightarrow>
               (let acc' = acc\<lparr>NEO := (NEO acc)\<lparr>BalanceHeight := index\<rparr>\<rparr>
                in rbind (nep5TokenNative_mint gasNative_increaseBalance GAS_native
                            (ScriptHash acc') (sys + net) m)
                     (\<lambda>m'. Ret (None, acc', m')))))"

definition neoNative_increaseBalance :: "'k incBalanceFn" where
  "neoNative_increaseBalance m acc amount =
     (if amount = 0 then Ret (None, acc, m)
      else if sint amount < 0 \<and> sint (Balance (NEO acc)) < sint (- amount)
      then Ret (Some ErrInsufficientFunds, acc, m)
      else case neoNative_distributeGas m acc of
             Panic \<Rightarrow> Panic
           | Ret (Some err, acc', m') \<Rightarrow> Ret (Some err, acc', m')
           | Ret (None, acc', m') \<Rightarrow>
               Ret (None, acc'\<lparr>NEO := (NEO acc')\<lparr>Balance := Balance (NEO acc') + amount\<rparr>\<rparr>, m'))"

text \<open>\<open>n.incBalance = n.increaseBalance\<close> and \<open>g.incBalance = g.increaseBalance\<close>.\<close>

fun incBalance :: "native \<Rightarrow> 'k incBalanceFn" where
  "incBalance NEO_native = neoNative_increaseBalance"
| "incBalance GAS_native = gasNative_increaseBalance"

definition mint :: "native \<Rightarrow> Uint160 \<Rightarrow> int64 \<Rightarrow> 'k machine \<Rightarrow> 'k machine res" where
  "mint c = nep5TokenNative_mint (incBalance c) c"

definition burn :: "native \<Rightarrow> Uint160 \<Rightarrow> int64 \<Rightarrow> 'k machine \<Rightarrow> 'k machine res" where
  "burn c = nep5TokenNative_burn (incBalance c) c"

definition transfer :: "native \<Rightarrow> Uint160 \<Rightarrow> Uint160 \<Rightarrow> int64 \<Rightarrow> 'k machine \<Rightarrow> (error option \<times> 'k machine) res" where
  "transfer c = nep5TokenNative_transfer (incBalance c) c"

definition Transfer :: "conversions \<Rightarrow> native \<Rightarrow> StackItem list \<Rightarrow> 'k machine \<Rightarrow> (StackItem \<times> 'k machine) res" where
  "Transfer L c = nep5TokenNative_Transfer L (incBalance c) c"

text \<open>The balance of a token that an account record holds.\<close>

fun balance :: "native \<Rightarrow> Account \<Rightarrow> int64" where
  "balance NEO_native acc = Balance (NEO acc)"
| "balance GAS_native acc = Balance (GAS acc)"

text \<open>
  Every account that decodes is stored under its own script hash (\<open>PutAccountState\<close> takes
  the key from the account).
\<close>

definition accounts_keyed :: "'k dao \<Rightarrow> bool" where
  "accounts_keyed d = (\<forall>h a. accounts d h = Some (Encoded a) \<longrightarrow> ScriptHash a = h)"

text \<open>
  The balance of a token that the account of a hash holds in the DAO: the balance of the
  stored account, zero for a hash without an account, nothing for an entry that does not
  decode.
\<close>

definition accountBalance :: "native \<Rightarrow> 'k dao \<Rightarrow> Uint160 \<Rightarrow> int64 option" where
  "accountBalance c d h =
     (case GetAccountStateOrNew d h of Inl err \<Rightarrow> None | Inr a \<Rightarrow> Some (balance c a))"

subsection \<open>The two native tokens and sample ledgers\<close>

text \<open>
  \<open>newNeoNative\<close> and \<open>newGasNative\<close>; the script hash of a native is the hash of its syscall
  script (\<open>getScriptHash\<close>), which the hash function of the crypto package computes, so it is
  a parameter here.
\<close>

definition newNeoNative :: "Uint160 \<Rightarrow> nep5TokenNative" where
  "newNeoNative h =
     \<lparr>name = ''NEO'', symbol = ''neo'', decimals = 0, factor = 1, totalSupply = 0, hash = h\<rparr>"

definition newGasNative :: "Uint160 \<Rightarrow> nep5TokenNative" where
  "newGasNative h =
     \<lparr>name = ''GAS'', symbol = ''gas'', decimals = 8, factor = 100000000, totalSupply = 0,
      hash = h\<rparr>"

text \<open>
  The notification that the specification describes for a transfer, written out: the script
  hash of the token and an array of the name \<open>Transfer\<close> (in ASCII), the origin, the
  destination and the amount, where a null endpoint is the nil item.
\<close>

definition Transfer_notification :: "Uint160 \<Rightarrow> StackItem \<Rightarrow> StackItem \<Rightarrow> int \<Rightarrow> NotificationEvent" where
  "Transfer_notification contract origin destination n =
     \<lparr>NotificationScriptHash = contract,
      Item = ArrayItem [ByteArrayItem [0x54, 0x72, 0x61, 0x6E, 0x73, 0x66, 0x65, 0x72],
                        origin, destination, BigIntegerItem n]\<rparr>"

text \<open>
  Concrete values for the examples: two account hashes, the script hashes of the natives,
  a chain on which a balance earns its own amount of system gas per block and which has no
  standby validators, conversions of stack items that read a byte array as its bytes and a
  big integer as its value (other items are not used in the examples), and ledgers that hold
  the given accounts, total supplies, notifications and block.
\<close>

definition hash_a :: Uint160 where
  "hash_a = [0xA0, 1, 2, 3, 4, 5, 6, 7, 8, 9, 10, 11, 12, 13, 14, 15, 16, 17, 18, 19]"

definition hash_b :: Uint160 where
  "hash_b = [0xB0, 1, 2, 3, 4, 5, 6, 7, 8, 9, 10, 11, 12, 13, 14, 15, 16, 17, 18, 19]"

definition hash_neo :: Uint160 where
  "hash_neo = [0xE0, 1, 2, 3, 4, 5, 6, 7, 8, 9, 10, 11, 12, 13, 14, 15, 16, 17, 18, 19]"

definition hash_gas :: Uint160 where
  "hash_gas = [0xF0, 1, 2, 3, 4, 5, 6, 7, 8, 9, 10, 11, 12, 13, 14, 15, 16, 17, 18, 19]"

definition bc0 :: "nat Blockchainer" where
  "bc0 = \<lparr>CalculateClaimable = (\<lambda>v s e. Inr (v * ucast (e - s), 0)),
          GetStandByValidators = Inr []\<rparr>"

definition conv0 :: conversions where
  "conv0 =
     \<lparr>TryBytes = (\<lambda>s. case s of ByteArrayItem b \<Rightarrow> Inr b | _ \<Rightarrow> Inl ErrWrongParameters),
      TryInteger = (\<lambda>s. case s of BigIntegerItem i \<Rightarrow> Inr i | _ \<Rightarrow> Inl ErrWrongParameters)\<rparr>"

definition account :: "Uint160 \<Rightarrow> int64 \<Rightarrow> uint32 \<Rightarrow> int64 \<Rightarrow> Account" where
  "account h n height g =
     \<lparr>ScriptHash = h, NEO = \<lparr>Balance = n, BalanceHeight = height\<rparr>, GAS = \<lparr>Balance = g\<rparr>\<rparr>"

definition ledger :: "uint32 option \<Rightarrow> (Uint160 \<rightharpoonup> Account stored) \<Rightarrow> int64 \<Rightarrow> int64 \<Rightarrow> NotificationEvent list \<Rightarrow> nat machine" where
  "ledger b accs neoSupply gasSupply ns =
     \<lparr>bc = bc0, block = b,
      dao = \<lparr>accounts = accs, assets = Map.empty, contracts = Map.empty, validators = [],
             validatorsCount = None\<rparr>,
      notifications = ns,
      neo = \<lparr>name = ''NEO'', symbol = ''neo'', decimals = 0, factor = 1,
             totalSupply = neoSupply, hash = hash_neo\<rparr>,
      gas = \<lparr>name = ''GAS'', symbol = ''gas'', decimals = 8, factor = 100000000,
             totalSupply = gasSupply, hash = hash_gas\<rparr>\<rparr>"

text \<open>The empty ledger: no accounts, no supply, no notifications.\<close>

definition machine0 :: "uint32 option \<Rightarrow> nat machine" where
  "machine0 b = ledger b Map.empty 0 0 []"

text \<open>
  The sum of the balances of a token over the stored accounts, as an integer.
\<close>

definition sumBalances :: "native \<Rightarrow> 'k dao \<Rightarrow> int" where
  "sumBalances c d =
     (\<Sum>h \<in> dom (accounts d).
        case accounts d h of Some (Encoded a) \<Rightarrow> sint (balance c a) | _ \<Rightarrow> 0)"

text \<open>
  The empty ledger after a transfer of 5 units of the utility token from \<open>hash_a\<close> to
  \<open>hash_b\<close>, and after a transfer of \<open>2^63 - 1\<close> units.
\<close>

definition ledger_credited :: "nat machine" where
  "ledger_credited =
     ledger None [hash_a \<mapsto> Encoded (account hash_a 0 0 5),
                  hash_b \<mapsto> Encoded (account hash_b 0 0 5)] 0 0
       [Transfer_notification hash_gas (ByteArrayItem hash_a) (ByteArrayItem hash_b) 5]"

definition ledger_max :: "nat machine" where
  "ledger_max =
     ledger None [hash_a \<mapsto> Encoded (account hash_a 0 0 0x7FFFFFFFFFFFFFFF),
                  hash_b \<mapsto> Encoded (account hash_b 0 0 0x7FFFFFFFFFFFFFFF)] 0 0
       [Transfer_notification hash_gas (ByteArrayItem hash_a) (ByteArrayItem hash_b)
          9223372036854775807]"

text \<open>
  The ledger \<open>ledger_max\<close> after a second transfer of \<open>2^63 - 1\<close> units: the balances are the
  64-bit pattern of \<open>- 2\<close>.
\<close>

definition ledger_wrapped :: "nat machine" where
  "ledger_wrapped =
     ledger None [hash_a \<mapsto> Encoded (account hash_a 0 0 0xFFFFFFFFFFFFFFFE),
                  hash_b \<mapsto> Encoded (account hash_b 0 0 0xFFFFFFFFFFFFFFFE)] 0 0
       [Transfer_notification hash_gas (ByteArrayItem hash_a) (ByteArrayItem hash_b)
          9223372036854775807,
        Transfer_notification hash_gas (ByteArrayItem hash_a) (ByteArrayItem hash_b)
          9223372036854775807]"

text \<open>
  The empty ledger after a mint of 10 units of the utility token to \<open>hash_a\<close>, and that
  ledger after a transfer of 5 units from \<open>hash_a\<close> to \<open>hash_b\<close>.
\<close>

definition ledger_minted :: "nat machine" where
  "ledger_minted =
     ledger None [hash_a \<mapsto> Encoded (account hash_a 0 0 10)] 0 10
       [Transfer_notification hash_gas NilItem (ByteArrayItem hash_a) 10]"

definition ledger_transferred :: "nat machine" where
  "ledger_transferred =
     ledger None [hash_a \<mapsto> Encoded (account hash_a 0 0 15),
                  hash_b \<mapsto> Encoded (account hash_b 0 0 5)] 0 10
       [Transfer_notification hash_gas NilItem (ByteArrayItem hash_a) 10,
        Transfer_notification hash_gas (ByteArrayItem hash_a) (ByteArrayItem hash_b) 5]"

text \<open>
  A ledger at block 1 on which \<open>hash_a\<close> holds 100 units of the governance token since block
  0, and that ledger after a mint of 5 units of the governance token to \<open>hash_a\<close>.
\<close>

definition ledger_neo100 :: "nat machine" where
  "ledger_neo100 = ledger (Some 1) [hash_a \<mapsto> Encoded (account hash_a 100 0 0)] 100 0 []"

definition ledger_neo105 :: "nat machine" where
  "ledger_neo105 =
     ledger (Some 1) [hash_a \<mapsto> Encoded (account hash_a 105 1 0)] 105 100
       [Transfer_notification hash_gas NilItem (ByteArrayItem hash_a) 100,
        Transfer_notification hash_neo NilItem (ByteArrayItem hash_a) 5]"

text \<open>A ledger without a block on which \<open>hash_a\<close> holds 100 units of the governance token.\<close>

definition ledger_neo100_idle :: "nat machine" where
  "ledger_neo100_idle = ledger None [hash_a \<mapsto> Encoded (account hash_a 100 0 0)] 100 0 []"

section \<open>Validator registration\<close>

text \<open>
  \<open>registerValidatorInternal\<close> returns nil when the key has a record that decodes, and
  stores a fresh record otherwise (on any error of the lookup).
\<close>

definition registerValidatorInternal :: "'k machine \<Rightarrow> 'k \<Rightarrow> error option \<times> 'k machine" where
  "registerValidatorInternal m pub =
     (case GetValidatorState (dao m) pub of
        Inr v \<Rightarrow> (None, m)
      | Inl err \<Rightarrow>
          (None, m\<lparr>dao := PutValidatorState
                             \<lparr>PublicKey = pub, Registered = False, Votes = 0\<rparr> (dao m)\<rparr>))"

text \<open>
  \<open>toPublicKey\<close>: the bytes of the item are decoded as a public key; \<open>DecodeBytes\<close> belongs
  to the keys package and is a parameter.
\<close>

definition toPublicKey :: "conversions \<Rightarrow> (bytes \<Rightarrow> error + 'k) \<Rightarrow> StackItem \<Rightarrow> 'k res" where
  "toPublicKey L DecodeBytes s =
     (case TryBytes L s of
        Inl err \<Rightarrow> Panic
      | Inr buf \<Rightarrow> (case DecodeBytes buf of Inl err \<Rightarrow> Panic | Inr pub \<Rightarrow> Ret pub))"

definition registerValidator :: "conversions \<Rightarrow> (bytes \<Rightarrow> error + 'k) \<Rightarrow> 'k machine \<Rightarrow> StackItem list \<Rightarrow> (StackItem \<times> 'k machine) res" where
  "registerValidator L DecodeBytes m args =
     rbind (arg args 0) (\<lambda>a0. rbind (toPublicKey L DecodeBytes a0) (\<lambda>pub.
       case registerValidatorInternal m pub of
         (err, m') \<Rightarrow> Ret (NewBoolItem (err = None), m')))"

section \<open>The dispatcher of native contracts\<close>

text \<open>
  Modelled from the spec: the VM (package vm) is not part of the sources at hand. Of the VM
  the interops use the evaluation stack (the top is the head of the list), the script hash
  of the current context (\<open>getContextScriptHash(v, 0)\<close>) and the checked hash. \<open>Pop\<close>
  returns nil on an empty stack, and the method called on it then panics; \<open>Array\<close> panics
  unless the item is an array or a struct. \<open>Bytes\<close> returns the byte form of an item or
  panics when it has none; it is a parameter of the dispatcher.
\<close>

record VM =
  estack :: "StackItem list"
  contextScriptHash :: Uint160
  checkedHash :: "bytes option"

fun Element_Array :: "StackItem \<Rightarrow> StackItem list res" where
  "Element_Array (ArrayItem xs) = Ret xs"
| "Element_Array (StructItem xs) = Ret xs"
| "Element_Array _ = Panic"

fun Pop :: "VM \<Rightarrow> (StackItem \<times> VM) res" where
  "Pop v = (case estack v of [] \<Rightarrow> Panic | x # xs \<Rightarrow> Ret (x, v\<lparr>estack := xs\<rparr>))"

definition PushVal :: "StackItem \<Rightarrow> VM \<Rightarrow> VM" where
  "PushVal x v = v\<lparr>estack := x # estack v\<rparr>"

type_synonym 'k NativeMethod =
  "'k machine \<Rightarrow> StackItem list \<Rightarrow> (StackItem \<times> 'k machine) res"

record 'k MethodMD =
  Func :: "'k NativeMethod"
  Price :: int64
  RequiredFlags :: byte

text \<open>Of a native contract the dispatcher reads the hash and the table of methods.\<close>

record 'k NativeContract =
  ServiceName :: string
  Hash :: Uint160
  Methods :: "bytes \<rightharpoonup> 'k MethodMD"

definition getNativeInterop :: "(StackItem \<Rightarrow> bytes res) \<Rightarrow> 'k NativeContract \<Rightarrow> 'k machine \<Rightarrow> VM \<Rightarrow> (error option \<times> 'k machine \<times> VM) res" where
  "getNativeInterop Bytes c m v =
     (let h = contextScriptHash v
      in if h \<noteq> Hash c then Ret (Some ErrInvalidHash, m, v)
         else rbind (Pop v) (\<lambda>(e1, v1). rbind (Bytes e1) (\<lambda>name.
              rbind (Pop v1) (\<lambda>(e2, v2). rbind (Element_Array e2) (\<lambda>args.
                case Methods c name of
                  None \<Rightarrow> Ret (Some (ErrMethodNotFound name), m, v2)
                | Some md \<Rightarrow>
                    rbind (Func md m args) (\<lambda>(result, m').
                      Ret (None, m', PushVal result v2)))))))"

text \<open>
  The native contract of the tests: the method \<open>sum\<close> adds two integers. \<open>bytes0\<close> is a
  sample of \<open>Bytes\<close> that knows byte arrays and booleans.
\<close>

definition bytes0 :: "StackItem \<Rightarrow> bytes res" where
  "bytes0 s =
     (case s of
        ByteArrayItem b \<Rightarrow> Ret b
      | BoolItem b \<Rightarrow> Ret [if b then 1 else 0]
      | _ \<Rightarrow> Panic)"


definition testNative_sum :: "conversions \<Rightarrow> 'k NativeMethod" where
  "testNative_sum L m args =
     rbind (arg args 0) (\<lambda>a0. rbind (toInt64 L a0) (\<lambda>s1.
     rbind (arg args 1) (\<lambda>a1. rbind (toInt64 L a1) (\<lambda>s2.
       Ret (NewBigIntegerItem (s1 + s2), m)))))"

definition testNative :: "conversions \<Rightarrow> Uint160 \<Rightarrow> 'k NativeContract" where
  "testNative L h =
     \<lparr>ServiceName = ''Test.Native.Sum'', Hash = h,
      Methods = [bytes_of ''sum'' \<mapsto> \<lparr>Func = testNative_sum L, Price = 1, RequiredFlags = 0\<rparr>]\<rparr>"

section \<open>Examples for the data access object\<close>

text \<open>
  A stand-in for the hash function of scripts, two asset ids, an asset and a contract.
\<close>

definition toy_hash160 :: "bytes \<Rightarrow> Uint160" where
  "toy_hash160 s = (if length s = 20 then map (\<lambda>b. b + 1) s else hash_a)"

definition id_a :: Uint256 where
  "id_a = [0xA0, 1, 2, 3, 4, 5, 6, 7, 8, 9, 10, 11, 12, 13, 14, 15, 16, 17, 18, 19, 20, 21, 22,
           23, 24, 25, 26, 27, 28, 29, 30, 31]"

definition id_b :: Uint256 where
  "id_b = [0xB0, 1, 2, 3, 4, 5, 6, 7, 8, 9, 10, 11, 12, 13, 14, 15, 16, 17, 18, 19, 20, 21, 22,
           23, 24, 25, 26, 27, 28, 29, 30, 31]"

definition asset_b :: Asset where
  "asset_b = \<lparr>ID = id_b, AssetData = []\<rparr>"

definition contract_b :: Contract where
  "contract_b = \<lparr>Script = hash_b, ContractData = []\<rparr>"

text \<open>
  A store in which an asset and a contract are found under their own identity and under a
  different key as well.
\<close>

definition dao_mixed :: "nat dao" where
  "dao_mixed =
     \<lparr>accounts = Map.empty,
      assets = [id_b \<mapsto> Encoded asset_b, id_a \<mapsto> Encoded asset_b],
      contracts = [toy_hash160 hash_b \<mapsto> Encoded contract_b, hash_a \<mapsto> Encoded contract_b],
      validators = [(7, Encoded \<lparr>PublicKey = 7, Registered = True, Votes = 3\<rparr>)],
      validatorsCount = None\<rparr>"

definition machine_mixed :: "nat machine" where
  "machine_mixed =
     \<lparr>bc = bc0, block = None, dao = dao_mixed, notifications = [],
      neo = newNeoNative hash_neo, gas = newGasNative hash_gas\<rparr>"

text \<open>A decoder of public keys for the examples: one byte is the key of that number.\<close>

definition toy_DecodeBytes :: "bytes \<Rightarrow> error + nat" where
  "toy_DecodeBytes buf = (case buf of [b] \<Rightarrow> Inr (unat b) | _ \<Rightarrow> Inl ErrDecode)"

section \<open>Checking several signatures\<close>

text \<open>
  The interop \<open>ecdsaCheckMultisig\<close> uses the hash function and the signature verification of
  the crypto packages and \<open>PopSigElements\<close> of the VM's stack, none of which is part of the
  sources at hand; they are the fields of a record of functions. \<open>Verify k s h\<close> says that
  the signature \<open>s\<close> of the hash \<open>h\<close> verifies under the key bytes \<open>k\<close>; \<open>PopSigElements\<close>
  takes the stack and returns the elements or an error, and the stack that is left.
\<close>

record crypto =
  Sha256 :: "bytes \<Rightarrow> bytes"
  Verify :: "bytes \<Rightarrow> bytes \<Rightarrow> bytes \<Rightarrow> bool"
  PopSigElements :: "StackItem list \<Rightarrow> (error + bytes list) \<times> StackItem list"

text \<open>
  Modelled from the spec: \<open>vm.CheckMultisigPar\<close> is not part of the sources at hand. The spec
  describes it as a verifier that walks the list of public keys and matches the signatures
  in order: the signature at the front is checked against the key at the front; when it
  verifies, both are consumed, otherwise the key is consumed; the check succeeds when no
  signature is left and fails when signatures but no keys are left.
\<close>

fun CheckMultisigPar :: "('k \<Rightarrow> 's \<Rightarrow> bool) \<Rightarrow> 'k list \<Rightarrow> 's list \<Rightarrow> bool" where
  "CheckMultisigPar vf pkeys [] = True"
| "CheckMultisigPar vf [] (s # sigs) = False"
| "CheckMultisigPar vf (k # pkeys) (s # sigs) =
     (if vf k s then CheckMultisigPar vf pkeys sigs else CheckMultisigPar vf pkeys (s # sigs))"

definition ecdsaCheckMultisig :: "conversions \<Rightarrow> crypto \<Rightarrow> VM \<Rightarrow> (error option \<times> VM) res" where
  "ecdsaCheckMultisig L C v =
     rbind (Pop v) (\<lambda>(e, v1).
       case TryBytes L e of
         Inl err \<Rightarrow> Ret (Some err, v1)
       | Inr msg \<Rightarrow>
           (let hashToCheck = Sha256 C msg
            in case PopSigElements C (estack v1) of
                 (Inl err, st) \<Rightarrow> Ret (Some ErrWrongParameters, v1\<lparr>estack := st\<rparr>)
               | (Inr pkeys, st1) \<Rightarrow>
                   (case PopSigElements C st1 of
                      (Inl err, st) \<Rightarrow> Ret (Some ErrWrongParameters, v1\<lparr>estack := st\<rparr>)
                    | (Inr sigs, st2) \<Rightarrow>
                        if length pkeys < length sigs
                        then Ret (Some ErrMoreSignatures, v1\<lparr>estack := st2\<rparr>)
                        else (let v2 = v1\<lparr>estack := st2, checkedHash := Some hashToCheck\<rparr>;
                                  sigok = CheckMultisigPar (\<lambda>k s. Verify C k s hashToCheck)
                                            pkeys sigs
                              in Ret (None, PushVal (BoolItem sigok) v2)))))"

text \<open>
  The claim in its own words: every signature matches some public key not yet consumed,
  walking the key list in order. That is, the signatures can be assigned, one after the
  other, to keys under which they verify, each to a key further down the list than the
  keys of the signatures before it.
\<close>

inductive ordered_match :: "('k \<Rightarrow> 's \<Rightarrow> bool) \<Rightarrow> 'k list \<Rightarrow> 's list \<Rightarrow> bool"
  for vf :: "'k \<Rightarrow> 's \<Rightarrow> bool" where
  no_signature: "ordered_match vf ks []"
| match_key: "vf k s \<Longrightarrow> ordered_match vf ks ss \<Longrightarrow> ordered_match vf (k # ks) (s # ss)"
| skip_key: "ordered_match vf ks ss \<Longrightarrow> ordered_match vf (k # ks) ss"

code_pred ordered_match .

text \<open>
  Samples: a hash that reverses the message, signatures that are the key followed by the
  hash, and a \<open>PopSigElements\<close> that pops an array of byte arrays.
\<close>

fun item_bytes :: "StackItem list \<Rightarrow> bytes list option" where
  "item_bytes [] = Some []"
| "item_bytes (ByteArrayItem b # xs) = map_option ((#) b) (item_bytes xs)"
| "item_bytes (x # xs) = None"

definition crypto0 :: crypto where
  "crypto0 =
     \<lparr>Sha256 = rev,
      Verify = (\<lambda>k s h. s = k @ h),
      PopSigElements = (\<lambda>st. case st of
          ArrayItem xs # rest \<Rightarrow>
            (case item_bytes xs of None \<Rightarrow> (Inl ErrWrongParameters, rest)
             | Some bs \<Rightarrow> (Inr bs, rest))
        | _ \<Rightarrow> (Inl ErrWrongParameters, st))\<rparr>"

definition multisig_vm :: "bytes list \<Rightarrow> bytes list \<Rightarrow> VM" where
  "multisig_vm pkeys sigs =
     \<lparr>estack = [ByteArrayItem [1, 2], ArrayItem (map ByteArrayItem pkeys),
                 ArrayItem (map ByteArrayItem sigs)],
      contextScriptHash = hash_a, checkedHash = None\<rparr>"

section \<open>The validators of the governance token\<close>

text \<open>
  Modelled from the spec: \<open>state.ValidatorsCount\<close>, its method \<open>GetWeightedAverage\<close> and
  \<open>Validator.RegisteredAndHasVotes\<close> belong to the state package, and \<open>PublicKeys.Unique\<close>,
  \<open>PublicKeys.Contains\<close> and \<open>PublicKey.Bytes\<close> to the keys package; neither is part of the
  sources at hand. The validators count holds the tallies per committee size; \<open>len\<close> is
  applied to the pointer that \<open>GetValidatorsCount\<close> returns, so it is an array, of a size fixed
  by its type, and a missing entry of the store gives the array of zeros of that size. The
  size and \<open>GetWeightedAverage\<close> (which the spec calls the weighted-average committee size,
  and which computes with floating point numbers) are parameters. A validator is registered
  and has votes when its flag is set and its votes are positive; \<open>Unique\<close> keeps the first
  occurrence of every key; \<open>Contains\<close> is membership.
\<close>

record state_package =
  ValidatorsCountSize :: nat
  GetWeightedAverage :: "int64 list \<Rightarrow> int"

definition GetValidatorsCount :: "state_package \<Rightarrow> 'k dao \<Rightarrow> error + int64 list" where
  "GetValidatorsCount S d =
     (case GetAndDecode (validatorsCount d) of
        Inl err \<Rightarrow> if err \<noteq> ErrKeyNotFound then Inl err
                   else Inr (replicate (ValidatorsCountSize S) 0)
      | Inr vc \<Rightarrow> Inr vc)"

definition RegisteredAndHasVotes :: "'k Validator \<Rightarrow> bool" where
  "RegisteredAndHasVotes vs = (Registered vs \<and> 0 < sint (Votes vs))"

fun Unique_from :: "'k list \<Rightarrow> 'k list \<Rightarrow> 'k list" where
  "Unique_from unique [] = unique"
| "Unique_from unique (publicKey # keys) =
     Unique_from (if publicKey \<in> set unique then unique else unique @ [publicKey]) keys"

definition Unique :: "'k list \<Rightarrow> 'k list" where
  "Unique keys = Unique_from [] keys"

text \<open>
  \<open>sort.Slice\<close> with a less function, as an insertion sort (the order of elements of
  which neither is less than the other, which \<open>sort.Slice\<close> leaves open, is the one of the
  insertion; two validators with different public keys are never such a pair). The less function of
  \<open>getValidators\<close> puts registered validators first, then the ones with more votes, then the
  ones with the smaller public key.
\<close>

fun insert_by :: "('a \<Rightarrow> 'a \<Rightarrow> bool) \<Rightarrow> 'a \<Rightarrow> 'a list \<Rightarrow> 'a list" where
  "insert_by lt x [] = [x]"
| "insert_by lt x (y # ys) = (if lt x y then x # y # ys else y # insert_by lt x ys)"

definition sort_Slice :: "('a \<Rightarrow> 'a \<Rightarrow> bool) \<Rightarrow> 'a list \<Rightarrow> 'a list" where
  "sort_Slice lt xs = foldr (insert_by lt) xs []"

definition validator_less :: "('k::linorder) Validator \<Rightarrow> 'k Validator \<Rightarrow> bool" where
  "validator_less vi vj =
     (if Registered vi \<noteq> Registered vj then Registered vi
      else if Votes vi \<noteq> Votes vj then sint (Votes vi) > sint (Votes vj)
      else PublicKey vi < PublicKey vj)"

text \<open>
  The loop that tops the result up from the standby validators: it runs while standby keys
  are left and the result is shorter than the count.
\<close>

fun top_up :: "int \<Rightarrow> 'k list \<Rightarrow> 'k list \<Rightarrow> 'k list" where
  "top_up count result [] = result"
| "top_up count result (sb # sbs) =
     (if int (length result) < count
      then top_up count (if sb \<in> set result then result else result @ [sb]) sbs
      else result)"

definition pubsToArray :: "('k \<Rightarrow> bytes) \<Rightarrow> 'k list \<Rightarrow> StackItem" where
  "pubsToArray Bytes pubs = ArrayItem (map (\<lambda>p. ByteArrayItem (Bytes p)) pubs)"

text \<open>
  The keys that \<open>getValidators\<close> selects when the validators count is not empty, before
  they are sorted: the stored validators in the order of the less function, of which the
  registered ones with votes and the standby ones are taken, cut to the count or topped up.
\<close>

definition selected_keys :: "int \<Rightarrow> ('k::linorder) list \<Rightarrow> 'k Validator list \<Rightarrow> 'k list" where
  "selected_keys count standByValidators vs =
     (let sorted_vs = sort_Slice validator_less vs;
          uniqueSBValidators = Unique standByValidators;
          result = map PublicKey
                     (filter (\<lambda>validator. RegisteredAndHasVotes validator
                                \<or> PublicKey validator \<in> set uniqueSBValidators) sorted_vs)
      in if int (length result) \<ge> count then take (nat count) result
         else top_up count result uniqueSBValidators)"

definition getValidators :: "state_package \<Rightarrow> (('k::linorder) \<Rightarrow> bytes) \<Rightarrow> 'k machine \<Rightarrow> StackItem list \<Rightarrow> (StackItem \<times> 'k machine) res" where
  "getValidators S Bytes m args =
     (case GetValidatorsCount S (dao m) of
        Inl err \<Rightarrow> Panic
      | Inr vc \<Rightarrow>
          if length vc = 0
          then (case GetStandByValidators (bc m) of
                  Inl err \<Rightarrow> Panic
                | Inr sb \<Rightarrow> Ret (pubsToArray Bytes sb, m))
          else (let count = GetWeightedAverage S vc
                in case GetStandByValidators (bc m) of
                     Inl err \<Rightarrow> Panic
                   | Inr standByValidators \<Rightarrow>
                       (let count = (if count < int (length standByValidators)
                                     then int (length standByValidators) else count);
                            result = selected_keys count standByValidators
                                       (GetValidators (dao m))
                        in Ret (pubsToArray Bytes (sort result), m))))"

text \<open>
  The committee size of the claim: the weighted average of the tallies, and at least the
  number of standby validators.
\<close>

definition committee_size :: "state_package \<Rightarrow> int64 list \<Rightarrow> 'k list \<Rightarrow> int" where
  "committee_size S vc standByValidators =
     max (GetWeightedAverage S vc) (int (length standByValidators))"

text \<open>
  The validators of the store are keyed by their public keys: no key of the store occurs
  twice, and a record that decodes has the key of its entry as its public key. That is how
  \<open>PutValidatorState\<close> stores a record.
\<close>

definition keyed_entry :: "'k \<times> 'k Validator stored \<Rightarrow> bool" where
  "keyed_entry e = (case snd e of Undecodable \<Rightarrow> True | Encoded v \<Rightarrow> PublicKey v = fst e)"

definition validators_keyed :: "'k dao \<Rightarrow> bool" where
  "validators_keyed d =
     (distinct (map fst (validators d)) \<and> list_all keyed_entry (validators d))"

text \<open>
  The keys that can be selected: the keys of the stored validators that are registered and
  have votes, and the standby keys.
\<close>

definition candidate_keys :: "'k list \<Rightarrow> 'k Validator list \<Rightarrow> 'k set" where
  "candidate_keys standByValidators vs =
     set (map PublicKey (filter RegisteredAndHasVotes vs)) \<union> set standByValidators"

text \<open>
  Modelled from the spec: a weighted average for the examples, in which the tally at index
  \<open>i\<close> weighs the committee size \<open>i + 1\<close>; it is zero when there are no votes.
\<close>

definition weighted_average :: "int64 list \<Rightarrow> int" where
  "weighted_average vc =
     (let total = sum_list (map sint vc)
      in if total = 0 then 0
         else sum_list (map (\<lambda>(i, tally). (int i + 1) * sint tally) (enumerate 0 vc))
                div total)"

definition state0 :: state_package where
  "state0 = \<lparr>ValidatorsCountSize = 4, GetWeightedAverage = weighted_average\<rparr>"

text \<open>
  A ledger with the standby validators 20 and 10, four stored validators that have a vote
  each and are not registered, and one vote for a committee of four.
\<close>

definition machine_votes4 :: "nat machine" where
  "machine_votes4 =
     \<lparr>bc = \<lparr>CalculateClaimable = (\<lambda>v s e. Inr (0, 0)), GetStandByValidators = Inr [20, 10]\<rparr>,
      block = None,
      dao = \<lparr>accounts = Map.empty, assets = Map.empty, contracts = Map.empty,
             validators = [(30, Encoded \<lparr>PublicKey = 30, Registered = False, Votes = 1\<rparr>),
                           (40, Encoded \<lparr>PublicKey = 40, Registered = False, Votes = 1\<rparr>),
                           (50, Encoded \<lparr>PublicKey = 50, Registered = False, Votes = 1\<rparr>),
                           (60, Encoded \<lparr>PublicKey = 60, Registered = False, Votes = 1\<rparr>)],
             validatorsCount = Some (Encoded [0, 0, 0, 1])\<rparr>,
      notifications = [],
      neo = newNeoNative hash_neo, gas = newGasNative hash_gas\<rparr>"

text \<open>
  The same chain with three stored validators: 30 is registered with 5 votes, 40 is
  registered with 7 votes, 50 is not registered; the tallies vote for a committee of three.
\<close>

definition machine_votes3 :: "nat machine" where
  "machine_votes3 =
     \<lparr>bc = \<lparr>CalculateClaimable = (\<lambda>v s e. Inr (0, 0)), GetStandByValidators = Inr [20, 10]\<rparr>,
      block = None,
      dao = \<lparr>accounts = Map.empty, assets = Map.empty, contracts = Map.empty,
             validators = [(30, Encoded \<lparr>PublicKey = 30, Registered = True, Votes = 5\<rparr>),
                           (40, Encoded \<lparr>PublicKey = 40, Registered = True, Votes = 7\<rparr>),
                           (50, Encoded \<lparr>PublicKey = 50, Registered = False, Votes = 9\<rparr>)],
             validatorsCount = Some (Encoded [0, 0, 2, 0])\<rparr>,
      notifications = [],
      neo = newNeoNative hash_neo, gas = newGasNative hash_gas\<rparr>"

definition nat_bytes :: "nat \<Rightarrow> bytes" where
  "nat_bytes n = [of_nat n]"

text \<open>A validators count of size zero, for the branch of the empty count.\<close>

definition state_empty :: state_package where
  "state_empty = \<lparr>ValidatorsCountSize = 0, GetWeightedAverage = weighted_average\<rparr>"

section \<open>Transfer log keys: results\<close>

lemma getNEP5TransferLogKey_length:
  "length acc = 20 \<Longrightarrow> \<exists>k. getNEP5TransferLogKey acc i = Ret k \<and> length k = 25"
  by (simp add: getNEP5TransferLogKey_def PutUint32_def make_bytes_def copy_at_def Uint160Size_def Let_def)

text \<open>
  C5. The key of a transfer log page should be the prefix \<open>0xA2\<close>, the 20 bytes of the account
  hash and the page index in four little-endian bytes. The code writes the index at offset
  \<open>Uint160Size\<close> instead of \<open>1 + Uint160Size\<close>: for the account \<open>01 02 .. 14\<close> and the index
  \<open>0x0A0B0C0D\<close> the last byte of the hash is overwritten by the lowest index byte and the
  last byte of the key stays zero, so the key differs from the specified one.
\<close>

theorem C5_getNEP5TransferLogKey_overwrites_hash:
  "getNEP5TransferLogKey acc_1_to_20 0x0A0B0C0D =
     Ret [0xA2, 1, 2, 3, 4, 5, 6, 7, 8, 9, 10, 11, 12, 13, 14, 15, 16, 17, 18, 19,
          0x0D, 0x0C, 0x0B, 0x0A, 0]
   \<and> NEP5TransferLogKey_spec acc_1_to_20 0x0A0B0C0D =
     [0xA2, 1, 2, 3, 4, 5, 6, 7, 8, 9, 10, 11, 12, 13, 14, 15, 16, 17, 18, 19, 20,
      0x0D, 0x0C, 0x0B, 0x0A]"
proof
  show "getNEP5TransferLogKey acc_1_to_20 0x0A0B0C0D =
     Ret [0xA2, 1, 2, 3, 4, 5, 6, 7, 8, 9, 10, 11, 12, 13, 14, 15, 16, 17, 18, 19,
          0x0D, 0x0C, 0x0B, 0x0A, 0]"
    by code_simp
  show "NEP5TransferLogKey_spec acc_1_to_20 0x0A0B0C0D =
     [0xA2, 1, 2, 3, 4, 5, 6, 7, 8, 9, 10, 11, 12, 13, 14, 15, 16, 17, 18, 19, 20,
      0x0D, 0x0C, 0x0B, 0x0A]"
    by (simp add: NEP5TransferLogKey_spec_def le32_def acc_1_to_20_def STNEP5Transfers_def)
qed

section \<open>Native tokens: what mint, burn and transfer compute\<close>

lemma rbind_Ret_iff: "(rbind x f = Ret y) = (\<exists>v. x = Ret v \<and> f v = Ret y)"
  by (cases x) auto

lemma GetAccountStateOrNew_keyed:
  "accounts_keyed d \<Longrightarrow> GetAccountStateOrNew d h = Inr a \<Longrightarrow> ScriptHash a = h"
  by (auto simp: GetAccountStateOrNew_def GetAccountState_def GetAndDecode_def accounts_keyed_def
      NewAccount_def split: option.splits stored.splits if_splits)

lemma GetAccountStateOrNew_absent:
  "accounts d h = None \<Longrightarrow> GetAccountStateOrNew d h = Inr (NewAccount h)"
  by (simp add: GetAccountStateOrNew_def GetAccountState_def GetAndDecode_def)

lemma GetAccountStateOrNew_stored:
  "accounts d h = Some (Encoded a) \<Longrightarrow> GetAccountStateOrNew d h = Inr a"
  by (simp add: GetAccountStateOrNew_def GetAccountState_def GetAndDecode_def)

lemma GetAccountStateOrNew_undecodable:
  "accounts d h = Some Undecodable \<Longrightarrow> GetAccountStateOrNew d h = Inl ErrDecode"
  by (simp add: GetAccountStateOrNew_def GetAccountState_def GetAndDecode_def)

lemma sint_neg_pos:
  fixes a :: int64
  assumes "0 < sint a"
  shows "sint (- a) = - sint a"
  using assms sint_lt [of a]
  by (simp add: sint_word_ariths signed_take_bit_int_eq_self_iff)

lemma sint_pos_facts:
  fixes a :: int64
  assumes "0 < sint a"
  shows "\<not> sint a < 0 \<and> a \<noteq> 0 \<and> - a \<noteq> 0 \<and> sint (- a) < 0 \<and> - (- a) = a"
  using assms sint_neg_pos [OF assms] by auto

lemma TransferEvent_explicit:
  "TransferEvent hsh from to amount =
     \<lparr>NotificationScriptHash = hsh,
      Item = ArrayItem [ByteArrayItem [0x54, 0x72, 0x61, 0x6E, 0x73, 0x66, 0x65, 0x72],
                        (case from of None \<Rightarrow> NilItem | Some u \<Rightarrow> ByteArrayItem u),
                        (case to of None \<Rightarrow> NilItem | Some u \<Rightarrow> ByteArrayItem u),
                        BigIntegerItem (sint amount)]\<rparr>"
  by (simp add: TransferEvent_def addrToStackItem_def bytes_of_def NewBigIntegerItem_def)

lemmas nep5_defs = mint_def burn_def transfer_def nep5TokenNative_mint_def
  nep5TokenNative_burn_def nep5TokenNative_transfer_def emitTransfer_def putAccount_def
  PutAccountState_def

lemma mint_negative: "sint amount < 0 \<Longrightarrow> mint c h amount m = Panic"
  by (simp add: nep5_defs)

lemma burn_negative: "sint amount < 0 \<Longrightarrow> burn c h amount m = Panic"
  by (simp add: nep5_defs)

lemma mint_zero: "mint c h 0 m = Ret m"
  by (simp add: nep5_defs)

lemma burn_zero: "burn c h 0 m = Ret m"
  by (simp add: nep5_defs)

lemma mint_undecodable:
  "0 < sint amount \<Longrightarrow> accounts (dao m) h = Some Undecodable \<Longrightarrow> mint c h amount m = Panic"
  by (auto simp: nep5_defs GetAccountStateOrNew_undecodable)

lemma burn_undecodable:
  "0 < sint amount \<Longrightarrow> accounts (dao m) h = Some Undecodable \<Longrightarrow> burn c h amount m = Panic"
  by (auto simp: nep5_defs GetAccountStateOrNew_undecodable)

subsection \<open>The utility token\<close>

lemma gas_mint_exact:
  assumes "0 < sint amount" and "GetAccountStateOrNew (dao m) h = Inr acc"
  shows "mint GAS_native h amount m =
    Ret (m\<lparr>dao := (dao m)\<lparr>accounts := (accounts (dao m))
                (ScriptHash acc \<mapsto>
                   Encoded (acc\<lparr>GAS := (GAS acc)\<lparr>Balance := Balance (GAS acc) + amount\<rparr>\<rparr>))\<rparr>,
           notifications := notifications m @ [TransferEvent (hash (gas m)) None (Some h) amount],
           gas := (gas m)\<lparr>totalSupply := totalSupply (gas m) + amount\<rparr>\<rparr>)"
  using assms
  by (auto simp: nep5_defs gasNative_increaseBalance_def)

lemma gas_burn_exact:
  assumes "0 < sint amount" and "GetAccountStateOrNew (dao m) h = Inr acc"
    and "sint amount \<le> sint (Balance (GAS acc))"
  shows "burn GAS_native h amount m =
    Ret (m\<lparr>dao := (dao m)\<lparr>accounts := (accounts (dao m))
                (ScriptHash acc \<mapsto>
                   Encoded (acc\<lparr>GAS := (GAS acc)\<lparr>Balance := Balance (GAS acc) - amount\<rparr>\<rparr>))\<rparr>,
           notifications := notifications m @ [TransferEvent (hash (gas m)) (Some h) None amount],
           gas := (gas m)\<lparr>totalSupply := totalSupply (gas m) - amount\<rparr>\<rparr>)"
  using assms sint_pos_facts [OF assms(1)]
  by (auto simp: nep5_defs gasNative_increaseBalance_def)

lemma gas_burn_insufficient:
  assumes "0 < sint amount" and "GetAccountStateOrNew (dao m) h = Inr acc"
    and "sint (Balance (GAS acc)) < sint amount"
  shows "burn GAS_native h amount m = Panic"
  using assms sint_pos_facts [OF assms(1)]
  by (auto simp: nep5_defs gasNative_increaseBalance_def)

lemma gas_transfer_exact:
  assumes "0 < sint amount" and "from \<noteq> to"
    and "GetAccountStateOrNew (dao m) from = Inr accFrom"
    and "GetAccountStateOrNew (dao m) to = Inr accTo"
    and "ScriptHash accFrom = from"
  shows "transfer GAS_native from to amount m =
    Ret (None,
      m\<lparr>dao := (dao m)\<lparr>accounts := (accounts (dao m))
            (from \<mapsto> Encoded (accFrom\<lparr>GAS := (GAS accFrom)\<lparr>Balance := Balance (GAS accFrom) + amount\<rparr>\<rparr>),
             ScriptHash accTo \<mapsto>
               Encoded (accTo\<lparr>GAS := (GAS accTo)\<lparr>Balance := Balance (GAS accTo) + amount\<rparr>\<rparr>))\<rparr>,
        notifications := notifications m @
          [TransferEvent (hash (gas m)) (Some from) (Some to) amount]\<rparr>)"
proof -
  have to2: "GetAccountStateOrNew
      (dao m\<lparr>accounts := (accounts (dao m))
         (from \<mapsto> Encoded (accFrom\<lparr>GAS := (GAS accFrom)\<lparr>Balance := Balance (GAS accFrom) + amount\<rparr>\<rparr>))\<rparr>) to
      = Inr accTo"
    using assms(2,4) by (simp add: GetAccountStateOrNew_def GetAccountState_def)
  show ?thesis
    using assms sint_pos_facts [OF assms(1)] to2
    by (simp add: nep5_defs gasNative_increaseBalance_def Let_def)
qed

subsection \<open>The governance token\<close>

lemma neo_distributeGas_no_block:
  "block m = None \<Longrightarrow> neoNative_distributeGas m acc = Ret (None, acc, m)"
  by (simp add: neoNative_distributeGas_def)

lemma neo_distributeGas_error:
  "block m = Some index \<Longrightarrow>
   CalculateClaimable (bc m) (Balance (NEO acc)) (BalanceHeight (NEO acc)) index = Inl err \<Longrightarrow>
   neoNative_distributeGas m acc = Ret (Some err, acc, m)"
  by (simp add: neoNative_distributeGas_def)

lemma neo_distributeGas_nothing:
  "block m = Some index \<Longrightarrow>
   CalculateClaimable (bc m) (Balance (NEO acc)) (BalanceHeight (NEO acc)) index = Inr (sys, net) \<Longrightarrow>
   sys + net = 0 \<Longrightarrow>
   neoNative_distributeGas m acc =
     Ret (None, acc\<lparr>NEO := (NEO acc)\<lparr>BalanceHeight := index\<rparr>\<rparr>, m)"
  by (simp add: neoNative_distributeGas_def nep5TokenNative_mint_def)

lemma neo_distributeGas_negative:
  "block m = Some index \<Longrightarrow>
   CalculateClaimable (bc m) (Balance (NEO acc)) (BalanceHeight (NEO acc)) index = Inr (sys, net) \<Longrightarrow>
   sint (sys + net) < 0 \<Longrightarrow>
   neoNative_distributeGas m acc = Panic"
  by (simp add: neoNative_distributeGas_def nep5TokenNative_mint_def)

lemma neo_distributeGas_mints:
  assumes "block m = Some index"
    and "CalculateClaimable (bc m) (Balance (NEO acc)) (BalanceHeight (NEO acc)) index = Inr (sys, net)"
    and "0 < sint (sys + net)"
    and "GetAccountStateOrNew (dao m) (ScriptHash acc) = Inr stored"
  shows "neoNative_distributeGas m acc =
     Ret (None, acc\<lparr>NEO := (NEO acc)\<lparr>BalanceHeight := index\<rparr>\<rparr>,
       m\<lparr>dao := (dao m)\<lparr>accounts := (accounts (dao m))
              (ScriptHash stored \<mapsto>
                 Encoded (stored\<lparr>GAS := (GAS stored)\<lparr>Balance := Balance (GAS stored) + (sys + net)\<rparr>\<rparr>))\<rparr>,
         notifications := notifications m @
           [TransferEvent (hash (gas m)) None (Some (ScriptHash acc)) (sys + net)],
         gas := (gas m)\<lparr>totalSupply := totalSupply (gas m) + (sys + net)\<rparr>\<rparr>)"
  using assms gas_mint_exact [OF assms(3,4)]
  by (simp add: neoNative_distributeGas_def mint_def)

lemma neo_mint_no_block:
  assumes "0 < sint amount" and "GetAccountStateOrNew (dao m) h = Inr acc" and "block m = None"
  shows "mint NEO_native h amount m =
    Ret (m\<lparr>dao := (dao m)\<lparr>accounts := (accounts (dao m))
                (ScriptHash acc \<mapsto>
                   Encoded (acc\<lparr>NEO := (NEO acc)\<lparr>Balance := Balance (NEO acc) + amount\<rparr>\<rparr>))\<rparr>,
           notifications := notifications m @ [TransferEvent (hash (neo m)) None (Some h) amount],
           neo := (neo m)\<lparr>totalSupply := totalSupply (neo m) + amount\<rparr>\<rparr>)"
  using assms
  by (auto simp: nep5_defs neoNative_increaseBalance_def neo_distributeGas_no_block)

lemma neo_burn_no_block:
  assumes "0 < sint amount" and "GetAccountStateOrNew (dao m) h = Inr acc" and "block m = None"
    and "sint amount \<le> sint (Balance (NEO acc))"
  shows "burn NEO_native h amount m =
    Ret (m\<lparr>dao := (dao m)\<lparr>accounts := (accounts (dao m))
                (ScriptHash acc \<mapsto>
                   Encoded (acc\<lparr>NEO := (NEO acc)\<lparr>Balance := Balance (NEO acc) - amount\<rparr>\<rparr>))\<rparr>,
           notifications := notifications m @ [TransferEvent (hash (neo m)) (Some h) None amount],
           neo := (neo m)\<lparr>totalSupply := totalSupply (neo m) - amount\<rparr>\<rparr>)"
  using assms sint_pos_facts [OF assms(1)]
  by (auto simp: nep5_defs neoNative_increaseBalance_def neo_distributeGas_no_block)

lemma neo_burn_insufficient:
  assumes "0 < sint amount" and "GetAccountStateOrNew (dao m) h = Inr acc"
    and "sint (Balance (NEO acc)) < sint amount"
  shows "burn NEO_native h amount m = Panic"
  using assms sint_pos_facts [OF assms(1)]
  by (auto simp: nep5_defs neoNative_increaseBalance_def)

lemma neo_mint_block:
  assumes "0 < sint amount" and "GetAccountStateOrNew (dao m) h = Inr acc"
    and "ScriptHash acc = h" and "block m = Some index"
    and "CalculateClaimable (bc m) (Balance (NEO acc)) (BalanceHeight (NEO acc)) index = Inr (sys, net)"
    and "0 < sint (sys + net)"
  shows "mint NEO_native h amount m =
    Ret (m\<lparr>dao := (dao m)\<lparr>accounts := (accounts (dao m))
                (h \<mapsto> Encoded (acc\<lparr>NEO := (NEO acc)\<lparr>BalanceHeight := index,
                                                       Balance := Balance (NEO acc) + amount\<rparr>\<rparr>))\<rparr>,
           notifications := notifications m @
             [TransferEvent (hash (gas m)) None (Some h) (sys + net),
              TransferEvent (hash (neo m)) None (Some h) amount],
           neo := (neo m)\<lparr>totalSupply := totalSupply (neo m) + amount\<rparr>,
           gas := (gas m)\<lparr>totalSupply := totalSupply (gas m) + (sys + net)\<rparr>\<rparr>)"
proof -
  have s: "GetAccountStateOrNew (dao m) (ScriptHash acc) = Inr acc" using assms(2,3) by simp
  show ?thesis
    using assms neo_distributeGas_mints [OF assms(4,5,6) s]
    by (auto simp: nep5_defs neoNative_increaseBalance_def)
qed

lemma neo_burn_block:
  assumes "0 < sint amount" and "GetAccountStateOrNew (dao m) h = Inr acc"
    and "ScriptHash acc = h" and "block m = Some index"
    and "CalculateClaimable (bc m) (Balance (NEO acc)) (BalanceHeight (NEO acc)) index = Inr (sys, net)"
    and "0 < sint (sys + net)"
    and "sint amount \<le> sint (Balance (NEO acc))"
  shows "burn NEO_native h amount m =
    Ret (m\<lparr>dao := (dao m)\<lparr>accounts := (accounts (dao m))
                (h \<mapsto> Encoded (acc\<lparr>NEO := (NEO acc)\<lparr>BalanceHeight := index,
                                                       Balance := Balance (NEO acc) - amount\<rparr>\<rparr>))\<rparr>,
           notifications := notifications m @
             [TransferEvent (hash (gas m)) None (Some h) (sys + net),
              TransferEvent (hash (neo m)) (Some h) None amount],
           neo := (neo m)\<lparr>totalSupply := totalSupply (neo m) - amount\<rparr>,
           gas := (gas m)\<lparr>totalSupply := totalSupply (gas m) + (sys + net)\<rparr>\<rparr>)"
proof -
  have s: "GetAccountStateOrNew (dao m) (ScriptHash acc) = Inr acc" using assms(2,3) by simp
  show ?thesis
    using assms neo_distributeGas_mints [OF assms(4,5,6) s] sint_pos_facts [OF assms(1)]
    by (auto simp: nep5_defs neoNative_increaseBalance_def)
qed

lemma neo_mint_block_nothing:
  assumes "0 < sint amount" and "GetAccountStateOrNew (dao m) h = Inr acc"
    and "block m = Some index"
    and "CalculateClaimable (bc m) (Balance (NEO acc)) (BalanceHeight (NEO acc)) index = Inr (sys, net)"
    and "sys + net = 0"
  shows "mint NEO_native h amount m =
    Ret (m\<lparr>dao := (dao m)\<lparr>accounts := (accounts (dao m))
                (ScriptHash acc \<mapsto>
                   Encoded (acc\<lparr>NEO := (NEO acc)\<lparr>BalanceHeight := index,
                                                   Balance := Balance (NEO acc) + amount\<rparr>\<rparr>))\<rparr>,
           notifications := notifications m @ [TransferEvent (hash (neo m)) None (Some h) amount],
           neo := (neo m)\<lparr>totalSupply := totalSupply (neo m) + amount\<rparr>\<rparr>)"
  using assms neo_distributeGas_nothing [OF assms(3,4,5)]
  by (auto simp: nep5_defs neoNative_increaseBalance_def)

lemma neo_mint_block_error:
  assumes "0 < sint amount" and "GetAccountStateOrNew (dao m) h = Inr acc"
    and "block m = Some index"
    and "CalculateClaimable (bc m) (Balance (NEO acc)) (BalanceHeight (NEO acc)) index = Inl err"
  shows "mint NEO_native h amount m = Panic"
  using assms neo_distributeGas_error [OF assms(3,4)]
  by (auto simp: nep5_defs neoNative_increaseBalance_def)

section \<open>Native tokens: transfers on sample ledgers\<close>

lemmas sample_defs = ledger_def account_def machine0_def bc0_def conv0_def
  Transfer_notification_def hash_a_def hash_b_def hash_neo_def hash_gas_def

lemma hash_a_neq_b: "hash_a \<noteq> hash_b"
  by (simp add: hash_a_def hash_b_def)

lemma length_hash_a: "length hash_a = 20"
  by (simp add: hash_a_def)

lemma length_hash_b: "length hash_b = 20"
  by (simp add: hash_b_def)

lemma toUint160_conv0: "length h = 20 \<Longrightarrow> toUint160 conv0 (ByteArrayItem h) = Ret h"
  by (simp add: toUint160_def conv0_def Uint160Size_def)

lemma toInt64_conv0: "toInt64 conv0 (BigIntegerItem i) = Ret (word_of_int i)"
  by (simp add: toInt64_def conv0_def)

lemma Transfer_eq:
  assumes "3 \<le> length args"
    and "toUint160 L (args ! 0) = Ret from" and "toUint160 L (args ! 1) = Ret to"
    and "toInt64 L (args ! 2) = Ret amount"
  shows "Transfer L c args m =
           rbind (transfer c from to amount m) (\<lambda>(err, m'). Ret (NewBoolItem (err = None), m'))"
proof -
  have "0 < length args" "1 < length args" "2 < length args" using assms(1) by auto
  then have "arg args 0 = Ret (args ! 0)" "arg args 1 = Ret (args ! 1)" "arg args 2 = Ret (args ! 2)"
    by (simp_all add: arg_def)
  then show ?thesis
    using assms(2-4) by (simp add: Transfer_def nep5TokenNative_Transfer_def transfer_def)
qed

lemma Transfer_conv0:
  "Transfer conv0 c [ByteArrayItem hash_a, ByteArrayItem hash_b, BigIntegerItem i] m =
     rbind (transfer c hash_a hash_b (word_of_int i) m)
       (\<lambda>(err, m'). Ret (NewBoolItem (err = None), m'))"
  by (rule Transfer_eq)
    (simp_all add: toUint160_conv0 length_hash_a length_hash_b toInt64_conv0)

lemma accountBalance_ledger_a:
  "accountBalance GAS_native (dao (ledger b [hash_a \<mapsto> Encoded (account hash_a n k g),
       hash_b \<mapsto> Encoded (account hash_b n' k' g')] s t ns)) hash_a = Some g"
  by (simp add: accountBalance_def GetAccountStateOrNew_def GetAccountState_def GetAndDecode_def
      ledger_def account_def hash_a_neq_b)

lemma accountBalance_ledger_b:
  "accountBalance GAS_native (dao (ledger b [hash_a \<mapsto> Encoded (account hash_a n k g),
       hash_b \<mapsto> Encoded (account hash_b n' k' g')] s t ns)) hash_b = Some g'"
  by (simp add: accountBalance_def GetAccountStateOrNew_def GetAccountState_def GetAndDecode_def
      ledger_def account_def)

lemma accountBalance_machine0: "accountBalance c (dao (machine0 b)) h = Some 0"
  by (cases c)
    (simp_all add: accountBalance_def GetAccountStateOrNew_def GetAccountState_def
      GetAndDecode_def machine0_def ledger_def NewAccount_def)

lemmas eval_defs = nep5_defs gasNative_increaseBalance_def neoNative_increaseBalance_def
  neoNative_distributeGas_def GetAccountStateOrNew_def GetAccountState_def GetAndDecode_def
  NewAccount_def TransferEvent_def addrToStackItem_def bytes_of_def NewBigIntegerItem_def
  NewBoolItem_def

lemma transfer_credited:
  "transfer GAS_native hash_a hash_b 5 (machine0 None) = Ret (None, ledger_credited)"
  by (simp add: eval_defs sample_defs ledger_credited_def Let_def)

lemma transfer_max:
  "transfer GAS_native hash_a hash_b 0x7FFFFFFFFFFFFFFF (machine0 None) = Ret (None, ledger_max)"
  by (simp add: eval_defs sample_defs ledger_max_def Let_def)

lemma transfer_wrapped:
  "transfer GAS_native hash_a hash_b 0x7FFFFFFFFFFFFFFF ledger_max = Ret (None, ledger_wrapped)"
  by (simp add: eval_defs sample_defs ledger_max_def ledger_wrapped_def Let_def)

lemma mint_gas_a_10: "mint GAS_native hash_a 10 (machine0 None) = Ret ledger_minted"
  by (simp add: eval_defs sample_defs ledger_minted_def Let_def)

lemma transfer_gas_a_b_5:
  "transfer GAS_native hash_a hash_b 5 ledger_minted = Ret (None, ledger_transferred)"
  by (simp add: eval_defs sample_defs ledger_minted_def ledger_transferred_def Let_def)

lemma sumBalances_ledger_minted: "sumBalances GAS_native (dao ledger_minted) = 10"
  by (simp add: sumBalances_def ledger_minted_def ledger_def account_def)

lemma sumBalances_ledger_transferred: "sumBalances GAS_native (dao ledger_transferred) = 20"
  by (simp add: sumBalances_def ledger_transferred_def ledger_def account_def
      hash_a_neq_b hash_a_neq_b [symmetric])

text \<open>
  C1. In a transfer between two accounts the sender should be debited and the receiver
  credited, and a negative amount should be rejected. On the empty ledger the transfer of 5
  units of the utility token from \<open>hash_a\<close>, which holds nothing, to \<open>hash_b\<close> succeeds
  (\<open>Transfer\<close> pushes true), and afterwards both accounts hold 5 units while the total supply
  is still 0: \<open>transfer\<close> passes the amount itself to the balance hook of the sender, where
  \<open>burn\<close> passes the negated amount. The notification that is appended carries the script
  hash of the token, the name, both accounts and the amount. Moreover \<open>Transfer\<close> with the
  negative amount \<open>- 2^63 - 1\<close> on the stack is not rejected: \<open>Int64()\<close> keeps the low 64
  bits, which are \<open>2^63 - 1\<close>, and that amount is credited to both accounts.
\<close>

theorem C1_transfer_credits_sender:
  "transfer GAS_native hash_a hash_b 5 (machine0 None) = Ret (None, ledger_credited)
   \<and> Transfer conv0 GAS_native
        [ByteArrayItem hash_a, ByteArrayItem hash_b, BigIntegerItem 5] (machine0 None)
       = Ret (BoolItem True, ledger_credited)
   \<and> accountBalance GAS_native (dao (machine0 None)) hash_a = Some 0
   \<and> accountBalance GAS_native (dao (machine0 None)) hash_b = Some 0
   \<and> totalSupply (gas (machine0 None)) = 0
   \<and> accountBalance GAS_native (dao ledger_credited) hash_a = Some 5
   \<and> accountBalance GAS_native (dao ledger_credited) hash_b = Some 5
   \<and> totalSupply (gas ledger_credited) = 0
   \<and> notifications ledger_credited =
       [\<lparr>NotificationScriptHash = hash_gas,
         Item = ArrayItem [ByteArrayItem [0x54, 0x72, 0x61, 0x6E, 0x73, 0x66, 0x65, 0x72],
                           ByteArrayItem hash_a, ByteArrayItem hash_b, BigIntegerItem 5]\<rparr>]
   \<and> Transfer conv0 GAS_native
        [ByteArrayItem hash_a, ByteArrayItem hash_b, BigIntegerItem (- 9223372036854775809)]
        (machine0 None)
       = Ret (BoolItem True, ledger_max)
   \<and> accountBalance GAS_native (dao ledger_max) hash_a = Some 0x7FFFFFFFFFFFFFFF
   \<and> accountBalance GAS_native (dao ledger_max) hash_b = Some 0x7FFFFFFFFFFFFFFF"
proof -
  have w: "(word_of_int (- 9223372036854775809) :: int64) = 0x7FFFFFFFFFFFFFFF" by simp
  have t1: "Transfer conv0 GAS_native
        [ByteArrayItem hash_a, ByteArrayItem hash_b, BigIntegerItem 5] (machine0 None)
       = Ret (BoolItem True, ledger_credited)"
    using transfer_credited by (simp add: Transfer_conv0 NewBoolItem_def)
  have t2: "Transfer conv0 GAS_native
        [ByteArrayItem hash_a, ByteArrayItem hash_b, BigIntegerItem (- 9223372036854775809)]
        (machine0 None)
       = Ret (BoolItem True, ledger_max)"
    unfolding Transfer_conv0 w using transfer_max by (simp add: NewBoolItem_def)
  have n: "notifications ledger_credited =
       [\<lparr>NotificationScriptHash = hash_gas,
         Item = ArrayItem [ByteArrayItem [0x54, 0x72, 0x61, 0x6E, 0x73, 0x66, 0x65, 0x72],
                           ByteArrayItem hash_a, ByteArrayItem hash_b, BigIntegerItem 5]\<rparr>]"
    by (simp add: ledger_credited_def ledger_def Transfer_notification_def)
  have s: "totalSupply (gas (machine0 None)) = 0" "totalSupply (gas ledger_credited) = 0"
    by (simp_all add: machine0_def ledger_credited_def ledger_def)
  show ?thesis
    using transfer_credited t1 t2 n s
    by (simp add: accountBalance_machine0 accountBalance_ledger_a accountBalance_ledger_b
        ledger_credited_def ledger_max_def)
qed

text \<open>
  C2. The total supply of a token should equal the sum of its balances after any sequence of
  mints, burns and transfers. On the empty ledger, minting 10 units of the utility token to
  \<open>hash_a\<close> gives a total supply of 10 and balances that sum to 10; the transfer of 5 units
  from \<open>hash_a\<close> to \<open>hash_b\<close> then succeeds and leaves the total supply at 10, while the
  balances are 15 and 5 and sum to 20.
\<close>

theorem C2_transfer_breaks_supply_invariant:
  "mint GAS_native hash_a 10 (machine0 None) = Ret ledger_minted
   \<and> totalSupply (gas ledger_minted) = 10
   \<and> sumBalances GAS_native (dao ledger_minted) = 10
   \<and> transfer GAS_native hash_a hash_b 5 ledger_minted = Ret (None, ledger_transferred)
   \<and> totalSupply (gas ledger_transferred) = 10
   \<and> accountBalance GAS_native (dao ledger_transferred) hash_a = Some 15
   \<and> accountBalance GAS_native (dao ledger_transferred) hash_b = Some 5
   \<and> sumBalances GAS_native (dao ledger_transferred) = 20"
proof -
  have s: "totalSupply (gas ledger_minted) = 10" "totalSupply (gas ledger_transferred) = 10"
    by (simp_all add: ledger_minted_def ledger_transferred_def ledger_def)
  show ?thesis
    using mint_gas_a_10 transfer_gas_a_b_5 sumBalances_ledger_minted
      sumBalances_ledger_transferred s
    by (simp add: accountBalance_ledger_a accountBalance_ledger_b ledger_transferred_def)
qed

text \<open>
  C3. No balance of a native token should ever be negative. On the empty ledger two
  transfers of \<open>2^63 - 1\<close> units of the utility token from \<open>hash_a\<close> to \<open>hash_b\<close> both succeed;
  after the first both accounts hold \<open>2^63 - 1\<close> units, and the second addition wraps
  around, so that both accounts hold the balance \<open>- 2\<close>.
\<close>

theorem C3_balance_wraps_negative:
  "transfer GAS_native hash_a hash_b 0x7FFFFFFFFFFFFFFF (machine0 None) = Ret (None, ledger_max)
   \<and> transfer GAS_native hash_a hash_b 0x7FFFFFFFFFFFFFFF ledger_max = Ret (None, ledger_wrapped)
   \<and> accountBalance GAS_native (dao ledger_wrapped) hash_a = Some 0xFFFFFFFFFFFFFFFE
   \<and> accountBalance GAS_native (dao ledger_wrapped) hash_b = Some 0xFFFFFFFFFFFFFFFE
   \<and> sint (0xFFFFFFFFFFFFFFFE :: int64) = - 2"
  using transfer_max transfer_wrapped
  by (simp add: accountBalance_ledger_a accountBalance_ledger_b ledger_wrapped_def)

section \<open>Native tokens: mint and burn\<close>

lemma TransferEvent_notification:
  "TransferEvent hsh None (Some h) amount =
     Transfer_notification hsh NilItem (ByteArrayItem h) (sint amount)"
  "TransferEvent hsh (Some h) None amount =
     Transfer_notification hsh (ByteArrayItem h) NilItem (sint amount)"
  "TransferEvent hsh (Some h) (Some h') amount =
     Transfer_notification hsh (ByteArrayItem h) (ByteArrayItem h') (sint amount)"
  by (simp_all add: TransferEvent_explicit Transfer_notification_def)

lemma neo_burn_block_nothing:
  assumes "0 < sint amount" and "GetAccountStateOrNew (dao m) h = Inr acc"
    and "block m = Some index"
    and "CalculateClaimable (bc m) (Balance (NEO acc)) (BalanceHeight (NEO acc)) index = Inr (sys, net)"
    and "sys + net = 0"
    and "sint amount \<le> sint (Balance (NEO acc))"
  shows "burn NEO_native h amount m =
    Ret (m\<lparr>dao := (dao m)\<lparr>accounts := (accounts (dao m))
                (ScriptHash acc \<mapsto>
                   Encoded (acc\<lparr>NEO := (NEO acc)\<lparr>BalanceHeight := index,
                                                   Balance := Balance (NEO acc) - amount\<rparr>\<rparr>))\<rparr>,
           notifications := notifications m @ [TransferEvent (hash (neo m)) (Some h) None amount],
           neo := (neo m)\<lparr>totalSupply := totalSupply (neo m) - amount\<rparr>\<rparr>)"
  using assms neo_distributeGas_nothing [OF assms(3,4,5)] sint_pos_facts [OF assms(1)]
  by (auto simp: nep5_defs neoNative_increaseBalance_def)

lemma neo_mint_block_distributes:
  assumes "0 < sint amount" and "GetAccountStateOrNew (dao m) h = Inr acc"
    and "ScriptHash acc = h" and "block m = Some index"
    and "CalculateClaimable (bc m) (Balance (NEO acc)) (BalanceHeight (NEO acc)) index = Inr (sys, net)"
    and "0 \<le> sint (sys + net)"
  shows "\<exists>acc'. ScriptHash acc' = h
      \<and> NEO acc' = (NEO acc)\<lparr>BalanceHeight := index, Balance := Balance (NEO acc) + amount\<rparr>
      \<and> mint NEO_native h amount m =
          Ret (m\<lparr>dao := (dao m)\<lparr>accounts := (accounts (dao m))(h \<mapsto> Encoded acc')\<rparr>,
                 notifications := notifications m @
                   (if sys + net = 0 then []
                    else [Transfer_notification (hash (gas m)) NilItem (ByteArrayItem h)
                            (sint (sys + net))]) @
                   [Transfer_notification (hash (neo m)) NilItem (ByteArrayItem h) (sint amount)],
                 neo := (neo m)\<lparr>totalSupply := totalSupply (neo m) + amount\<rparr>,
                 gas := (gas m)\<lparr>totalSupply := totalSupply (gas m) + (sys + net)\<rparr>\<rparr>)"
proof (cases "sys + net = 0")
  case True
  show ?thesis
    using neo_mint_block_nothing [OF assms(1,2,4,5) True] assms(3) True
    by (intro exI [of _ "acc\<lparr>NEO := (NEO acc)\<lparr>BalanceHeight := index,
          Balance := Balance (NEO acc) + amount\<rparr>\<rparr>"])
      (simp add: TransferEvent_notification)
next
  case False
  then have "0 < sint (sys + net)" using assms(6) by (auto simp: order_less_le signed_eq_0_iff)
  from neo_mint_block [OF assms(1-5) this] False show ?thesis
    by (intro exI [of _ "acc\<lparr>NEO := (NEO acc)\<lparr>BalanceHeight := index,
          Balance := Balance (NEO acc) + amount\<rparr>\<rparr>"])
      (simp add: TransferEvent_notification assms(3))
qed

lemma neo_burn_block_distributes:
  assumes "0 < sint amount" and "GetAccountStateOrNew (dao m) h = Inr acc"
    and "ScriptHash acc = h" and "block m = Some index"
    and "CalculateClaimable (bc m) (Balance (NEO acc)) (BalanceHeight (NEO acc)) index = Inr (sys, net)"
    and "0 \<le> sint (sys + net)"
    and "sint amount \<le> sint (Balance (NEO acc))"
  shows "\<exists>acc'. ScriptHash acc' = h
      \<and> NEO acc' = (NEO acc)\<lparr>BalanceHeight := index, Balance := Balance (NEO acc) - amount\<rparr>
      \<and> burn NEO_native h amount m =
          Ret (m\<lparr>dao := (dao m)\<lparr>accounts := (accounts (dao m))(h \<mapsto> Encoded acc')\<rparr>,
                 notifications := notifications m @
                   (if sys + net = 0 then []
                    else [Transfer_notification (hash (gas m)) NilItem (ByteArrayItem h)
                            (sint (sys + net))]) @
                   [Transfer_notification (hash (neo m)) (ByteArrayItem h) NilItem (sint amount)],
                 neo := (neo m)\<lparr>totalSupply := totalSupply (neo m) - amount\<rparr>,
                 gas := (gas m)\<lparr>totalSupply := totalSupply (gas m) + (sys + net)\<rparr>\<rparr>)"
proof (cases "sys + net = 0")
  case True
  show ?thesis
    using neo_burn_block_nothing [OF assms(1,2,4,5) True assms(7)] assms(3) True
    by (intro exI [of _ "acc\<lparr>NEO := (NEO acc)\<lparr>BalanceHeight := index,
          Balance := Balance (NEO acc) - amount\<rparr>\<rparr>"])
      (simp add: TransferEvent_notification)
next
  case False
  then have "0 < sint (sys + net)" using assms(6) by (auto simp: order_less_le signed_eq_0_iff)
  from neo_burn_block [OF assms(1-5) this assms(7)] False show ?thesis
    by (intro exI [of _ "acc\<lparr>NEO := (NEO acc)\<lparr>BalanceHeight := index,
          Balance := Balance (NEO acc) - amount\<rparr>\<rparr>"])
      (simp add: TransferEvent_notification assms(3))
qed

lemma mint_neo_a_5: "mint NEO_native hash_a 5 ledger_neo100 = Ret ledger_neo105"
  by (simp add: eval_defs sample_defs ledger_neo100_def ledger_neo105_def Let_def)

text \<open>
  C4, as claimed: \<open>mint\<close> and \<open>burn\<close> update only the account and the total supply of the
  token. At block 1, on a ledger where \<open>hash_a\<close> holds 100 units of the governance token since
  block 0, the mint of 5 units of the governance token to \<open>hash_a\<close> also raises the total
  supply of the utility token from 0 to 100 and appends a notification of the utility token
  before its own: the balance hook of the governance token distributes the claimable gas.
\<close>

theorem C4_mint_neo_changes_gas_supply:
  "mint NEO_native hash_a 5 ledger_neo100 = Ret ledger_neo105
   \<and> totalSupply (neo ledger_neo100) = 100
   \<and> totalSupply (neo ledger_neo105) = 105
   \<and> totalSupply (gas ledger_neo100) = 0
   \<and> totalSupply (gas ledger_neo105) = 100
   \<and> notifications ledger_neo100 = []
   \<and> notifications ledger_neo105 =
       [\<lparr>NotificationScriptHash = hash_gas,
         Item = ArrayItem [ByteArrayItem [0x54, 0x72, 0x61, 0x6E, 0x73, 0x66, 0x65, 0x72],
                           NilItem, ByteArrayItem hash_a, BigIntegerItem 100]\<rparr>,
        \<lparr>NotificationScriptHash = hash_neo,
         Item = ArrayItem [ByteArrayItem [0x54, 0x72, 0x61, 0x6E, 0x73, 0x66, 0x65, 0x72],
                           NilItem, ByteArrayItem hash_a, BigIntegerItem 5]\<rparr>]"
  using mint_neo_a_5
  by (simp add: ledger_neo100_def ledger_neo105_def ledger_def Transfer_notification_def)

text \<open>
  C4, amended. A negative amount makes \<open>mint\<close> and \<open>burn\<close> panic, and a zero amount leaves
  the machine as it is. For a positive amount and an account of \<open>h\<close> that decodes (or is
  new): a mint of the utility token stores the account with its GAS balance raised by the
  amount, raises the total supply of the utility token by the amount and appends the
  notification with the nil origin, and changes nothing else; a burn of the utility token
  does the same with the balance and the total supply lowered and the nil destination when
  the balance covers the amount, and panics otherwise. The governance token behaves in the
  same way on its own balance and total supply when the context has no block. When the
  context has a block and the claimable gas is computed and not negative, a mint or a
  covered burn of the governance token stores an account of \<open>h\<close> with the NEO balance changed
  by the amount and the balance height set to the block, changes the total supply of the
  governance token by the amount, and in addition raises the total supply of the utility
  token by the claimable gas and, when that is not zero, appends a mint notification of the
  utility token before its own notification; no other account changes.
\<close>

theorem C4_mint_burn:
  "(sint amount < 0 \<longrightarrow> mint c h amount m = Panic \<and> burn c h amount m = Panic)
   \<and> mint c h 0 m = Ret m
   \<and> burn c h 0 m = Ret m
   \<and> (0 < sint amount \<and> GetAccountStateOrNew (dao m) h = Inr acc \<and> ScriptHash acc = h \<longrightarrow>
        mint GAS_native h amount m =
          Ret (m\<lparr>dao := (dao m)\<lparr>accounts := (accounts (dao m))
                   (h \<mapsto> Encoded (acc\<lparr>GAS := (GAS acc)\<lparr>Balance := Balance (GAS acc) + amount\<rparr>\<rparr>))\<rparr>,
                 notifications := notifications m @
                   [Transfer_notification (hash (gas m)) NilItem (ByteArrayItem h) (sint amount)],
                 gas := (gas m)\<lparr>totalSupply := totalSupply (gas m) + amount\<rparr>\<rparr>)
      \<and> (sint amount \<le> sint (Balance (GAS acc)) \<longrightarrow>
          burn GAS_native h amount m =
            Ret (m\<lparr>dao := (dao m)\<lparr>accounts := (accounts (dao m))
                     (h \<mapsto> Encoded (acc\<lparr>GAS := (GAS acc)\<lparr>Balance := Balance (GAS acc) - amount\<rparr>\<rparr>))\<rparr>,
                   notifications := notifications m @
                     [Transfer_notification (hash (gas m)) (ByteArrayItem h) NilItem (sint amount)],
                   gas := (gas m)\<lparr>totalSupply := totalSupply (gas m) - amount\<rparr>\<rparr>))
      \<and> (sint (Balance (GAS acc)) < sint amount \<longrightarrow> burn GAS_native h amount m = Panic)
      \<and> (block m = None \<longrightarrow>
          mint NEO_native h amount m =
            Ret (m\<lparr>dao := (dao m)\<lparr>accounts := (accounts (dao m))
                     (h \<mapsto> Encoded (acc\<lparr>NEO := (NEO acc)\<lparr>Balance := Balance (NEO acc) + amount\<rparr>\<rparr>))\<rparr>,
                   notifications := notifications m @
                     [Transfer_notification (hash (neo m)) NilItem (ByteArrayItem h) (sint amount)],
                   neo := (neo m)\<lparr>totalSupply := totalSupply (neo m) + amount\<rparr>\<rparr>)
          \<and> (sint amount \<le> sint (Balance (NEO acc)) \<longrightarrow>
              burn NEO_native h amount m =
                Ret (m\<lparr>dao := (dao m)\<lparr>accounts := (accounts (dao m))
                         (h \<mapsto> Encoded (acc\<lparr>NEO := (NEO acc)\<lparr>Balance := Balance (NEO acc) - amount\<rparr>\<rparr>))\<rparr>,
                       notifications := notifications m @
                         [Transfer_notification (hash (neo m)) (ByteArrayItem h) NilItem (sint amount)],
                       neo := (neo m)\<lparr>totalSupply := totalSupply (neo m) - amount\<rparr>\<rparr>)))
      \<and> (sint (Balance (NEO acc)) < sint amount \<longrightarrow> burn NEO_native h amount m = Panic)
      \<and> (block m = Some index
           \<and> CalculateClaimable (bc m) (Balance (NEO acc)) (BalanceHeight (NEO acc)) index
               = Inr (sys, net)
           \<and> 0 \<le> sint (sys + net) \<longrightarrow>
          (\<exists>acc'. ScriptHash acc' = h
             \<and> NEO acc' = (NEO acc)\<lparr>BalanceHeight := index, Balance := Balance (NEO acc) + amount\<rparr>
             \<and> mint NEO_native h amount m =
                 Ret (m\<lparr>dao := (dao m)\<lparr>accounts := (accounts (dao m))(h \<mapsto> Encoded acc')\<rparr>,
                        notifications := notifications m @
                          (if sys + net = 0 then []
                           else [Transfer_notification (hash (gas m)) NilItem (ByteArrayItem h)
                                   (sint (sys + net))]) @
                          [Transfer_notification (hash (neo m)) NilItem (ByteArrayItem h)
                             (sint amount)],
                        neo := (neo m)\<lparr>totalSupply := totalSupply (neo m) + amount\<rparr>,
                        gas := (gas m)\<lparr>totalSupply := totalSupply (gas m) + (sys + net)\<rparr>\<rparr>))
          \<and> (sint amount \<le> sint (Balance (NEO acc)) \<longrightarrow>
              (\<exists>acc'. ScriptHash acc' = h
                 \<and> NEO acc' = (NEO acc)\<lparr>BalanceHeight := index,
                                           Balance := Balance (NEO acc) - amount\<rparr>
                 \<and> burn NEO_native h amount m =
                     Ret (m\<lparr>dao := (dao m)\<lparr>accounts := (accounts (dao m))(h \<mapsto> Encoded acc')\<rparr>,
                            notifications := notifications m @
                              (if sys + net = 0 then []
                               else [Transfer_notification (hash (gas m)) NilItem (ByteArrayItem h)
                                       (sint (sys + net))]) @
                              [Transfer_notification (hash (neo m)) (ByteArrayItem h) NilItem
                                 (sint amount)],
                            neo := (neo m)\<lparr>totalSupply := totalSupply (neo m) - amount\<rparr>,
                            gas := (gas m)\<lparr>totalSupply := totalSupply (gas m) + (sys + net)\<rparr>\<rparr>)))))"
proof (intro conjI impI)
  assume "sint amount < 0"
  then show "mint c h amount m = Panic" "burn c h amount m = Panic"
    by (simp_all add: mint_negative burn_negative)
next
  show "mint c h 0 m = Ret m" by (rule mint_zero)
  show "burn c h 0 m = Ret m" by (rule burn_zero)
next
  assume a: "0 < sint amount \<and> GetAccountStateOrNew (dao m) h = Inr acc \<and> ScriptHash acc = h"
  then have p: "0 < sint amount" and g: "GetAccountStateOrNew (dao m) h = Inr acc"
    and s: "ScriptHash acc = h" by simp_all
  show "mint GAS_native h amount m =
          Ret (m\<lparr>dao := (dao m)\<lparr>accounts := (accounts (dao m))
                   (h \<mapsto> Encoded (acc\<lparr>GAS := (GAS acc)\<lparr>Balance := Balance (GAS acc) + amount\<rparr>\<rparr>))\<rparr>,
                 notifications := notifications m @
                   [Transfer_notification (hash (gas m)) NilItem (ByteArrayItem h) (sint amount)],
                 gas := (gas m)\<lparr>totalSupply := totalSupply (gas m) + amount\<rparr>\<rparr>)"
    using gas_mint_exact [OF p g] s by (simp add: TransferEvent_notification)
  {
    assume "sint amount \<le> sint (Balance (GAS acc))"
    from gas_burn_exact [OF p g this] s
    show "burn GAS_native h amount m =
            Ret (m\<lparr>dao := (dao m)\<lparr>accounts := (accounts (dao m))
                     (h \<mapsto> Encoded (acc\<lparr>GAS := (GAS acc)\<lparr>Balance := Balance (GAS acc) - amount\<rparr>\<rparr>))\<rparr>,
                   notifications := notifications m @
                     [Transfer_notification (hash (gas m)) (ByteArrayItem h) NilItem (sint amount)],
                   gas := (gas m)\<lparr>totalSupply := totalSupply (gas m) - amount\<rparr>\<rparr>)"
      by (simp add: TransferEvent_notification)
  }
  {
    assume "sint (Balance (GAS acc)) < sint amount"
    from gas_burn_insufficient [OF p g this]
    show "burn GAS_native h amount m = Panic" .
  }
  {
    assume b: "block m = None"
    from neo_mint_no_block [OF p g b] s
    show "mint NEO_native h amount m =
            Ret (m\<lparr>dao := (dao m)\<lparr>accounts := (accounts (dao m))
                     (h \<mapsto> Encoded (acc\<lparr>NEO := (NEO acc)\<lparr>Balance := Balance (NEO acc) + amount\<rparr>\<rparr>))\<rparr>,
                   notifications := notifications m @
                     [Transfer_notification (hash (neo m)) NilItem (ByteArrayItem h) (sint amount)],
                   neo := (neo m)\<lparr>totalSupply := totalSupply (neo m) + amount\<rparr>\<rparr>)"
      by (simp add: TransferEvent_notification)
    assume "sint amount \<le> sint (Balance (NEO acc))"
    from neo_burn_no_block [OF p g b this] s
    show "burn NEO_native h amount m =
                Ret (m\<lparr>dao := (dao m)\<lparr>accounts := (accounts (dao m))
                         (h \<mapsto> Encoded (acc\<lparr>NEO := (NEO acc)\<lparr>Balance := Balance (NEO acc) - amount\<rparr>\<rparr>))\<rparr>,
                       notifications := notifications m @
                         [Transfer_notification (hash (neo m)) (ByteArrayItem h) NilItem (sint amount)],
                       neo := (neo m)\<lparr>totalSupply := totalSupply (neo m) - amount\<rparr>\<rparr>)"
      by (simp add: TransferEvent_notification)
  }
  {
    assume "sint (Balance (NEO acc)) < sint amount"
    from neo_burn_insufficient [OF p g this]
    show "burn NEO_native h amount m = Panic" .
  }
  {
    assume c: "block m = Some index
           \<and> CalculateClaimable (bc m) (Balance (NEO acc)) (BalanceHeight (NEO acc)) index
               = Inr (sys, net)
           \<and> 0 \<le> sint (sys + net)"
    then have b: "block m = Some index"
      and cc: "CalculateClaimable (bc m) (Balance (NEO acc)) (BalanceHeight (NEO acc)) index
               = Inr (sys, net)"
      and nn: "0 \<le> sint (sys + net)" by simp_all
    from neo_mint_block_distributes [OF p g s b cc nn]
    show "\<exists>acc'. ScriptHash acc' = h
             \<and> NEO acc' = (NEO acc)\<lparr>BalanceHeight := index, Balance := Balance (NEO acc) + amount\<rparr>
             \<and> mint NEO_native h amount m =
                 Ret (m\<lparr>dao := (dao m)\<lparr>accounts := (accounts (dao m))(h \<mapsto> Encoded acc')\<rparr>,
                        notifications := notifications m @
                          (if sys + net = 0 then []
                           else [Transfer_notification (hash (gas m)) NilItem (ByteArrayItem h)
                                   (sint (sys + net))]) @
                          [Transfer_notification (hash (neo m)) NilItem (ByteArrayItem h)
                             (sint amount)],
                        neo := (neo m)\<lparr>totalSupply := totalSupply (neo m) + amount\<rparr>,
                        gas := (gas m)\<lparr>totalSupply := totalSupply (gas m) + (sys + net)\<rparr>\<rparr>)" .
    assume "sint amount \<le> sint (Balance (NEO acc))"
    from neo_burn_block_distributes [OF p g s b cc nn this]
    show "\<exists>acc'. ScriptHash acc' = h
                 \<and> NEO acc' = (NEO acc)\<lparr>BalanceHeight := index,
                                           Balance := Balance (NEO acc) - amount\<rparr>
                 \<and> burn NEO_native h amount m =
                     Ret (m\<lparr>dao := (dao m)\<lparr>accounts := (accounts (dao m))(h \<mapsto> Encoded acc')\<rparr>,
                            notifications := notifications m @
                              (if sys + net = 0 then []
                               else [Transfer_notification (hash (gas m)) NilItem (ByteArrayItem h)
                                       (sint (sys + net))]) @
                              [Transfer_notification (hash (neo m)) (ByteArrayItem h) NilItem
                                 (sint amount)],
                            neo := (neo m)\<lparr>totalSupply := totalSupply (neo m) - amount\<rparr>,
                            gas := (gas m)\<lparr>totalSupply := totalSupply (gas m) + (sys + net)\<rparr>\<rparr>)" .
  }
qed

lemma GetAccountStateOrNew_ledger_a:
  "GetAccountStateOrNew (dao (ledger b [hash_a \<mapsto> Encoded acc] s t ns)) hash_a = Inr acc"
  by (simp add: GetAccountStateOrNew_stored ledger_def)

theorem C4_mint_burn_witness:
  "mint GAS_native hash_a (- 1) (machine0 None) = Panic
   \<and> burn GAS_native hash_a (- 1) (machine0 None) = Panic
   \<and> mint GAS_native hash_a 5 ledger_minted =
       Ret (ledger None [hash_a \<mapsto> Encoded (account hash_a 0 0 15)] 0 15
             [Transfer_notification hash_gas NilItem (ByteArrayItem hash_a) 10,
              Transfer_notification hash_gas NilItem (ByteArrayItem hash_a) 5])
   \<and> burn GAS_native hash_a 5 ledger_minted =
       Ret (ledger None [hash_a \<mapsto> Encoded (account hash_a 0 0 5)] 0 5
             [Transfer_notification hash_gas NilItem (ByteArrayItem hash_a) 10,
              Transfer_notification hash_gas (ByteArrayItem hash_a) NilItem 5])
   \<and> burn GAS_native hash_a 20 ledger_minted = Panic
   \<and> mint NEO_native hash_a 5 ledger_minted =
       Ret (ledger None [hash_a \<mapsto> Encoded (account hash_a 5 0 10)] 5 10
             [Transfer_notification hash_gas NilItem (ByteArrayItem hash_a) 10,
              Transfer_notification hash_neo NilItem (ByteArrayItem hash_a) 5])
   \<and> burn NEO_native hash_a 5 ledger_minted = Panic
   \<and> burn NEO_native hash_a 5 ledger_neo100_idle =
       Ret (ledger None [hash_a \<mapsto> Encoded (account hash_a 95 0 0)] 95 0
             [Transfer_notification hash_neo (ByteArrayItem hash_a) NilItem 5])
   \<and> (\<exists>acc'. ScriptHash acc' = hash_a \<and> NEO acc' = \<lparr>Balance = 105, BalanceHeight = 1\<rparr>
        \<and> mint NEO_native hash_a 5 ledger_neo100 =
            Ret (ledger (Some 1) [hash_a \<mapsto> Encoded acc'] 105 100
                  [Transfer_notification hash_gas NilItem (ByteArrayItem hash_a) 100,
                   Transfer_notification hash_neo NilItem (ByteArrayItem hash_a) 5]))
   \<and> (\<exists>acc'. ScriptHash acc' = hash_a \<and> NEO acc' = \<lparr>Balance = 95, BalanceHeight = 1\<rparr>
        \<and> burn NEO_native hash_a 5 ledger_neo100 =
            Ret (ledger (Some 1) [hash_a \<mapsto> Encoded acc'] 95 100
                  [Transfer_notification hash_gas NilItem (ByteArrayItem hash_a) 100,
                   Transfer_notification hash_neo (ByteArrayItem hash_a) NilItem 5]))"
proof -
  have neg: "sint (- 1 :: int64) < 0" by simp
  have p5: "0 < sint (5 :: int64)" and p20: "0 < sint (20 :: int64)" by simp_all
  have i1: "mint GAS_native hash_a (- 1) (machine0 None) = Panic
      \<and> burn GAS_native hash_a (- 1) (machine0 None) = Panic"
    using C4_mint_burn [of "- 1" GAS_native hash_a "machine0 None"] neg by simp
  have gm: "GetAccountStateOrNew (dao ledger_minted) hash_a = Inr (account hash_a 0 0 10)"
    by (simp add: ledger_minted_def GetAccountStateOrNew_ledger_a)
  have sh: "\<And>n k g. ScriptHash (account hash_a n k g) = hash_a" by (simp add: account_def)
  have bm: "block ledger_minted = None" by (simp add: ledger_minted_def ledger_def)
  have i2: "mint GAS_native hash_a 5 ledger_minted =
       Ret (ledger None [hash_a \<mapsto> Encoded (account hash_a 0 0 15)] 0 15
             [Transfer_notification hash_gas NilItem (ByteArrayItem hash_a) 10,
              Transfer_notification hash_gas NilItem (ByteArrayItem hash_a) 5])
     \<and> burn GAS_native hash_a 5 ledger_minted =
       Ret (ledger None [hash_a \<mapsto> Encoded (account hash_a 0 0 5)] 0 5
             [Transfer_notification hash_gas NilItem (ByteArrayItem hash_a) 10,
              Transfer_notification hash_gas (ByteArrayItem hash_a) NilItem 5])
     \<and> mint NEO_native hash_a 5 ledger_minted =
       Ret (ledger None [hash_a \<mapsto> Encoded (account hash_a 5 0 10)] 5 10
             [Transfer_notification hash_gas NilItem (ByteArrayItem hash_a) 10,
              Transfer_notification hash_neo NilItem (ByteArrayItem hash_a) 5])
     \<and> burn NEO_native hash_a 5 ledger_minted = Panic"
    using C4_mint_burn [of 5 _ hash_a ledger_minted "account hash_a 0 0 10"] p5 gm sh bm
    by (simp add: ledger_minted_def ledger_def account_def)
  have i3: "burn GAS_native hash_a 20 ledger_minted = Panic"
    using C4_mint_burn [of 20 _ hash_a ledger_minted "account hash_a 0 0 10"] p20 gm sh
    by (simp add: account_def)
  have gi: "GetAccountStateOrNew (dao ledger_neo100_idle) hash_a = Inr (account hash_a 100 0 0)"
    by (simp add: ledger_neo100_idle_def GetAccountStateOrNew_ledger_a)
  have bi: "block ledger_neo100_idle = None" by (simp add: ledger_neo100_idle_def ledger_def)
  have i4: "burn NEO_native hash_a 5 ledger_neo100_idle =
       Ret (ledger None [hash_a \<mapsto> Encoded (account hash_a 95 0 0)] 95 0
             [Transfer_notification hash_neo (ByteArrayItem hash_a) NilItem 5])"
    using C4_mint_burn [of 5 _ hash_a ledger_neo100_idle "account hash_a 100 0 0"] p5 gi sh bi
    by (simp add: ledger_neo100_idle_def ledger_def account_def)
  have gn: "GetAccountStateOrNew (dao ledger_neo100) hash_a = Inr (account hash_a 100 0 0)"
    by (simp add: ledger_neo100_def GetAccountStateOrNew_ledger_a)
  have bn: "block ledger_neo100 = Some 1" by (simp add: ledger_neo100_def ledger_def)
  have cn: "CalculateClaimable (bc ledger_neo100) (Balance (NEO (account hash_a 100 0 0)))
      (BalanceHeight (NEO (account hash_a 100 0 0))) 1 = Inr (100, 0)"
    by (simp add: ledger_neo100_def ledger_def bc0_def account_def)
  have nn: "0 \<le> sint (100 + 0 :: int64)" by simp
  have i5: "(\<exists>acc'. ScriptHash acc' = hash_a \<and> NEO acc' = \<lparr>Balance = 105, BalanceHeight = 1\<rparr>
        \<and> mint NEO_native hash_a 5 ledger_neo100 =
            Ret (ledger (Some 1) [hash_a \<mapsto> Encoded acc'] 105 100
                  [Transfer_notification hash_gas NilItem (ByteArrayItem hash_a) 100,
                   Transfer_notification hash_neo NilItem (ByteArrayItem hash_a) 5]))
     \<and> (\<exists>acc'. ScriptHash acc' = hash_a \<and> NEO acc' = \<lparr>Balance = 95, BalanceHeight = 1\<rparr>
        \<and> burn NEO_native hash_a 5 ledger_neo100 =
            Ret (ledger (Some 1) [hash_a \<mapsto> Encoded acc'] 95 100
                  [Transfer_notification hash_gas NilItem (ByteArrayItem hash_a) 100,
                   Transfer_notification hash_neo (ByteArrayItem hash_a) NilItem 5]))"
    using C4_mint_burn [of 5 _ hash_a ledger_neo100 "account hash_a 100 0 0" 1 100 0]
      p5 gn sh bn cn nn
    by (simp add: ledger_neo100_def ledger_def account_def)
  from i1 i2 i3 i4 i5 show ?thesis by simp
qed

section \<open>The dispatcher of native contracts: results\<close>

lemma getNativeInterop_invalid_hash:
  "contextScriptHash v \<noteq> Hash c \<Longrightarrow> getNativeInterop Bytes c m v = Ret (Some ErrInvalidHash, m, v)"
  by (simp add: getNativeInterop_def)

lemma getNativeInterop_pops:
  assumes "contextScriptHash v = Hash c" and "estack v = nameItem # argItem # rest"
    and "Bytes nameItem = Ret mname" and "Element_Array argItem = Ret args"
  shows "getNativeInterop Bytes c m v =
    (case Methods c mname of
       None \<Rightarrow> Ret (Some (ErrMethodNotFound mname), m, v\<lparr>estack := rest\<rparr>)
     | Some md \<Rightarrow>
         rbind (Func md m args) (\<lambda>(result, m').
           Ret (None, m', v\<lparr>estack := result # rest\<rparr>)))"
  using assms
  by (simp add: getNativeInterop_def PushVal_def split: option.splits)

text \<open>
  C6. The dispatcher returns an error when the script hash of the invoking context differs
  from the hash of the native contract, and then leaves the stack as it is. When the hashes
  agree, it pops the method name and the argument array; for a name of the method table it
  calls the handler with the arguments and pushes the item that the handler returns (a
  panic of the handler aborts the call), for an unknown name it returns an error.
\<close>

theorem C6_getNativeInterop:
  "(contextScriptHash v \<noteq> Hash c \<longrightarrow>
      getNativeInterop Bytes c m v = Ret (Some ErrInvalidHash, m, v))
   \<and> (contextScriptHash v = Hash c \<and> estack v = nameItem # argItem # rest
        \<and> Bytes nameItem = Ret mname \<and> Element_Array argItem = Ret args \<longrightarrow>
      (\<forall>md result m'. Methods c mname = Some md \<and> Func md m args = Ret (result, m') \<longrightarrow>
          getNativeInterop Bytes c m v = Ret (None, m', v\<lparr>estack := result # rest\<rparr>))
      \<and> (\<forall>md. Methods c mname = Some md \<and> Func md m args = Panic \<longrightarrow>
          getNativeInterop Bytes c m v = Panic)
      \<and> (Methods c mname = None \<longrightarrow>
          getNativeInterop Bytes c m v =
            Ret (Some (ErrMethodNotFound mname), m, v\<lparr>estack := rest\<rparr>)))"
proof (intro conjI impI allI)
  assume "contextScriptHash v \<noteq> Hash c"
  then show "getNativeInterop Bytes c m v = Ret (Some ErrInvalidHash, m, v)"
    by (rule getNativeInterop_invalid_hash)
next
  fix md result m'
  assume a: "contextScriptHash v = Hash c \<and> estack v = nameItem # argItem # rest
        \<and> Bytes nameItem = Ret mname \<and> Element_Array argItem = Ret args"
    and b: "Methods c mname = Some md \<and> Func md m args = Ret (result, m')"
  from a b show "getNativeInterop Bytes c m v = Ret (None, m', v\<lparr>estack := result # rest\<rparr>)"
    by (simp add: getNativeInterop_pops)
next
  fix md
  assume a: "contextScriptHash v = Hash c \<and> estack v = nameItem # argItem # rest
        \<and> Bytes nameItem = Ret mname \<and> Element_Array argItem = Ret args"
    and b: "Methods c mname = Some md \<and> Func md m args = Panic"
  from a b show "getNativeInterop Bytes c m v = Panic"
    by (simp add: getNativeInterop_pops)
next
  assume a: "contextScriptHash v = Hash c \<and> estack v = nameItem # argItem # rest
        \<and> Bytes nameItem = Ret mname \<and> Element_Array argItem = Ret args"
    and b: "Methods c mname = None"
  from a b show "getNativeInterop Bytes c m v =
      Ret (Some (ErrMethodNotFound mname), m, v\<lparr>estack := rest\<rparr>)"
    by (simp add: getNativeInterop_pops)
qed

lemma testNative_sum_14_28:
  "testNative_sum conv0 m [BigIntegerItem 14, BigIntegerItem 28] = Ret (BigIntegerItem 42, m)"
  by (simp add: testNative_sum_def arg_def toInt64_def conv0_def NewBigIntegerItem_def)

theorem C6_getNativeInterop_witness:
  "getNativeInterop bytes0 (testNative conv0 hash_a) (machine0 None)
      \<lparr>estack = [ByteArrayItem (bytes_of ''sum''),
                  ArrayItem [BigIntegerItem 14, BigIntegerItem 28]],
       contextScriptHash = hash_b, checkedHash = None\<rparr>
     = Ret (Some ErrInvalidHash, machine0 None,
         \<lparr>estack = [ByteArrayItem (bytes_of ''sum''),
                     ArrayItem [BigIntegerItem 14, BigIntegerItem 28]],
          contextScriptHash = hash_b, checkedHash = None\<rparr>)
   \<and> getNativeInterop bytes0 (testNative conv0 hash_a) (machine0 None)
      \<lparr>estack = [ByteArrayItem (bytes_of ''sum''),
                  ArrayItem [BigIntegerItem 14, BigIntegerItem 28]],
       contextScriptHash = hash_a, checkedHash = None\<rparr>
     = Ret (None, machine0 None,
         \<lparr>estack = [BigIntegerItem 42], contextScriptHash = hash_a, checkedHash = None\<rparr>)
   \<and> getNativeInterop bytes0 (testNative conv0 hash_a) (machine0 None)
      \<lparr>estack = [ByteArrayItem (bytes_of ''mul''),
                  ArrayItem [BigIntegerItem 14, BigIntegerItem 28]],
       contextScriptHash = hash_a, checkedHash = None\<rparr>
     = Ret (Some (ErrMethodNotFound (bytes_of ''mul'')), machine0 None,
         \<lparr>estack = [], contextScriptHash = hash_a, checkedHash = None\<rparr>)
   \<and> getNativeInterop bytes0 (testNative conv0 hash_a) (machine0 None)
      \<lparr>estack = [ByteArrayItem (bytes_of ''sum''), ArrayItem [BigIntegerItem 14]],
       contextScriptHash = hash_a, checkedHash = None\<rparr>
     = Panic"
proof -
  let ?args = "[BigIntegerItem 14, BigIntegerItem 28]"
  let ?c = "testNative conv0 hash_a :: nat NativeContract"
  let ?md = "\<lparr>Func = testNative_sum conv0, Price = 1, RequiredFlags = 0\<rparr> :: nat MethodMD"
  have h: "Hash ?c = hash_a" by (simp add: testNative_def)
  have s: "Methods ?c (bytes_of ''sum'') = Some ?md"
    by (simp add: testNative_def)
  have u: "Methods ?c (bytes_of ''mul'') = None"
    by (simp add: testNative_def bytes_of_def)
  have t: "\<And>b. bytes0 (ByteArrayItem b) = Ret b" by (simp add: bytes0_def)
  have 1: "getNativeInterop bytes0 ?c (machine0 None)
      \<lparr>estack = [ByteArrayItem (bytes_of ''sum''), ArrayItem ?args],
       contextScriptHash = hash_b, checkedHash = None\<rparr>
     = Ret (Some ErrInvalidHash, machine0 None,
         \<lparr>estack = [ByteArrayItem (bytes_of ''sum''), ArrayItem ?args],
          contextScriptHash = hash_b, checkedHash = None\<rparr>)"
    using C6_getNativeInterop [of "\<lparr>estack = [ByteArrayItem (bytes_of ''sum''), ArrayItem ?args],
       contextScriptHash = hash_b, checkedHash = None\<rparr>" ?c bytes0 "machine0 None"]
      h hash_a_neq_b
    by simp
  have 2: "getNativeInterop bytes0 ?c (machine0 None)
      \<lparr>estack = [ByteArrayItem (bytes_of ''sum''), ArrayItem ?args],
       contextScriptHash = hash_a, checkedHash = None\<rparr>
     = Ret (None, machine0 None,
         \<lparr>estack = [BigIntegerItem 42], contextScriptHash = hash_a, checkedHash = None\<rparr>)"
    using C6_getNativeInterop [of "\<lparr>estack = [ByteArrayItem (bytes_of ''sum''), ArrayItem ?args],
       contextScriptHash = hash_a, checkedHash = None\<rparr>" ?c bytes0 "machine0 None"
       "ByteArrayItem (bytes_of ''sum'')" "ArrayItem ?args" "[]" "bytes_of ''sum''" ?args]
      h s t testNative_sum_14_28 [of "machine0 None"]
    by simp
  have 3: "getNativeInterop bytes0 ?c (machine0 None)
      \<lparr>estack = [ByteArrayItem (bytes_of ''mul''), ArrayItem ?args],
       contextScriptHash = hash_a, checkedHash = None\<rparr>
     = Ret (Some (ErrMethodNotFound (bytes_of ''mul'')), machine0 None,
         \<lparr>estack = [], contextScriptHash = hash_a, checkedHash = None\<rparr>)"
    using C6_getNativeInterop [of "\<lparr>estack = [ByteArrayItem (bytes_of ''mul''), ArrayItem ?args],
       contextScriptHash = hash_a, checkedHash = None\<rparr>" ?c bytes0 "machine0 None"
       "ByteArrayItem (bytes_of ''mul'')" "ArrayItem ?args" "[]" "bytes_of ''mul''" ?args]
      h u t
    by simp
  have p: "testNative_sum conv0 (machine0 None) [BigIntegerItem 14] = Panic"
    by (simp add: testNative_sum_def arg_def toInt64_def conv0_def)
  have 4: "getNativeInterop bytes0 ?c (machine0 None)
      \<lparr>estack = [ByteArrayItem (bytes_of ''sum''), ArrayItem [BigIntegerItem 14]],
       contextScriptHash = hash_a, checkedHash = None\<rparr>
     = Panic"
    using C6_getNativeInterop [of "\<lparr>estack = [ByteArrayItem (bytes_of ''sum''),
         ArrayItem [BigIntegerItem 14]],
       contextScriptHash = hash_a, checkedHash = None\<rparr>" ?c bytes0 "machine0 None"
       "ByteArrayItem (bytes_of ''sum'')" "ArrayItem [BigIntegerItem 14]" "[]" "bytes_of ''sum''"
       "[BigIntegerItem 14]"]
      h s t p
    by simp
  from 1 2 3 4 show ?thesis by simp
qed

section \<open>Validator registration: results\<close>

lemma store_put_map_of: "map_of (store_put k v kvs) = (map_of kvs)(k \<mapsto> v)"
  by (induction kvs) auto

lemma registerValidator_eq:
  assumes "args \<noteq> []" and "toPublicKey L DecodeBytes (args ! 0) = Ret pub"
  shows "registerValidator L DecodeBytes m args =
     Ret (BoolItem (fst (registerValidatorInternal m pub) = None),
          snd (registerValidatorInternal m pub))"
  using assms
  by (simp add: registerValidator_def arg_def NewBoolItem_def split: prod.splits)

text \<open>
  C8. Registering a public key that has a stored validator record changes nothing and
  reports success (\<open>registerValidator\<close> pushes true); registering a key without an entry in
  the store adds a fresh record (not registered, no votes) under that key, leaves the other
  entries as they were, and reports success.
\<close>

theorem C8_registerValidator:
  "(map_of (validators (dao m)) pub = Some (Encoded v) \<longrightarrow>
      registerValidatorInternal m pub = (None, m)
      \<and> (args \<noteq> [] \<and> toPublicKey L DecodeBytes (args ! 0) = Ret pub \<longrightarrow>
           registerValidator L DecodeBytes m args = Ret (BoolItem True, m)))
   \<and> (map_of (validators (dao m)) pub = None \<longrightarrow>
      (\<exists>vs. registerValidatorInternal m pub = (None, m\<lparr>dao := (dao m)\<lparr>validators := vs\<rparr>\<rparr>)
          \<and> map_of vs = (map_of (validators (dao m)))
                (pub \<mapsto> Encoded \<lparr>PublicKey = pub, Registered = False, Votes = 0\<rparr>)
          \<and> (args \<noteq> [] \<and> toPublicKey L DecodeBytes (args ! 0) = Ret pub \<longrightarrow>
               registerValidator L DecodeBytes m args =
                 Ret (BoolItem True, m\<lparr>dao := (dao m)\<lparr>validators := vs\<rparr>\<rparr>))))"
proof (intro conjI impI)
  assume s: "map_of (validators (dao m)) pub = Some (Encoded v)"
  then show i: "registerValidatorInternal m pub = (None, m)"
    by (simp add: registerValidatorInternal_def GetValidatorState_def GetAndDecode_def)
  assume "args \<noteq> [] \<and> toPublicKey L DecodeBytes (args ! 0) = Ret pub"
  then show "registerValidator L DecodeBytes m args = Ret (BoolItem True, m)"
    using i by (simp add: registerValidator_eq)
next
  assume s: "map_of (validators (dao m)) pub = None"
  let ?vs = "store_put pub (Encoded \<lparr>PublicKey = pub, Registered = False, Votes = 0\<rparr>)
               (validators (dao m))"
  have i: "registerValidatorInternal m pub = (None, m\<lparr>dao := (dao m)\<lparr>validators := ?vs\<rparr>\<rparr>)"
    using s
    by (simp add: registerValidatorInternal_def GetValidatorState_def GetAndDecode_def
        PutValidatorState_def)
  have p: "map_of ?vs = (map_of (validators (dao m)))
                (pub \<mapsto> Encoded \<lparr>PublicKey = pub, Registered = False, Votes = 0\<rparr>)"
    by (rule store_put_map_of)
  have r: "args \<noteq> [] \<and> toPublicKey L DecodeBytes (args ! 0) = Ret pub \<longrightarrow>
               registerValidator L DecodeBytes m args =
                 Ret (BoolItem True, m\<lparr>dao := (dao m)\<lparr>validators := ?vs\<rparr>\<rparr>)"
    using i by (simp add: registerValidator_eq)
  from i p r show "\<exists>vs. registerValidatorInternal m pub = (None, m\<lparr>dao := (dao m)\<lparr>validators := vs\<rparr>\<rparr>)
          \<and> map_of vs = (map_of (validators (dao m)))
                (pub \<mapsto> Encoded \<lparr>PublicKey = pub, Registered = False, Votes = 0\<rparr>)
          \<and> (args \<noteq> [] \<and> toPublicKey L DecodeBytes (args ! 0) = Ret pub \<longrightarrow>
               registerValidator L DecodeBytes m args =
                 Ret (BoolItem True, m\<lparr>dao := (dao m)\<lparr>validators := vs\<rparr>\<rparr>))"
    by blast
qed

theorem C8_registerValidator_witness:
  "registerValidatorInternal machine_mixed 7 = (None, machine_mixed)
   \<and> registerValidator conv0 toy_DecodeBytes machine_mixed [ByteArrayItem [7]]
       = Ret (BoolItem True, machine_mixed)
   \<and> (\<exists>vs. registerValidatorInternal machine_mixed 9 =
            (None, machine_mixed\<lparr>dao := dao_mixed\<lparr>validators := vs\<rparr>\<rparr>)
        \<and> map_of vs 9 = Some (Encoded \<lparr>PublicKey = 9, Registered = False, Votes = 0\<rparr>)
        \<and> map_of vs 7 = Some (Encoded \<lparr>PublicKey = 7, Registered = True, Votes = 3\<rparr>)
        \<and> registerValidator conv0 toy_DecodeBytes machine_mixed [ByteArrayItem [9]] =
            Ret (BoolItem True, machine_mixed\<lparr>dao := dao_mixed\<lparr>validators := vs\<rparr>\<rparr>))"
proof -
  have v7: "map_of (validators (dao machine_mixed)) 7
      = Some (Encoded \<lparr>PublicKey = 7, Registered = True, Votes = 3\<rparr>)"
    by (simp add: machine_mixed_def dao_mixed_def)
  have v9: "map_of (validators (dao machine_mixed)) 9 = None"
    by (simp add: machine_mixed_def dao_mixed_def)
  have p7: "toPublicKey conv0 toy_DecodeBytes ([ByteArrayItem [7]] ! 0) = Ret 7"
    by (simp add: toPublicKey_def conv0_def toy_DecodeBytes_def)
  have p9: "toPublicKey conv0 toy_DecodeBytes ([ByteArrayItem [9]] ! 0) = Ret 9"
    by (simp add: toPublicKey_def conv0_def toy_DecodeBytes_def)
  have d: "dao machine_mixed = dao_mixed"
    by (simp add: machine_mixed_def)
  have a: "registerValidatorInternal machine_mixed 7 = (None, machine_mixed)
      \<and> registerValidator conv0 toy_DecodeBytes machine_mixed [ByteArrayItem [7]]
          = Ret (BoolItem True, machine_mixed)"
    using C8_registerValidator [of machine_mixed 7 _ "[ByteArrayItem [7]]" conv0 toy_DecodeBytes]
      v7 p7
    by simp
  have b: "\<exists>vs. registerValidatorInternal machine_mixed 9 =
            (None, machine_mixed\<lparr>dao := dao_mixed\<lparr>validators := vs\<rparr>\<rparr>)
        \<and> map_of vs 9 = Some (Encoded \<lparr>PublicKey = 9, Registered = False, Votes = 0\<rparr>)
        \<and> map_of vs 7 = Some (Encoded \<lparr>PublicKey = 7, Registered = True, Votes = 3\<rparr>)
        \<and> registerValidator conv0 toy_DecodeBytes machine_mixed [ByteArrayItem [9]] =
            Ret (BoolItem True, machine_mixed\<lparr>dao := dao_mixed\<lparr>validators := vs\<rparr>\<rparr>)"
    using C8_registerValidator [of machine_mixed 9 _ "[ByteArrayItem [9]]" conv0 toy_DecodeBytes]
      v7 v9 p9 d
    by auto
  from a b show ?thesis by simp
qed

section \<open>The data access object: records found under their key\<close>

text \<open>
  C10. An asset that \<open>GetAssetState\<close> returns for a hash has that hash as its id, and a
  contract that \<open>GetContractState\<close> returns for a hash has that hash as its script hash: a
  stored record that decodes to the identity of its key is returned, and one that decodes
  to another identity yields an error.
\<close>

theorem C10_get_by_key:
  "(GetAssetState d h = Inr asset \<longrightarrow> ID asset = h)
   \<and> (GetContractState Hash160 d h' = Inr contract \<longrightarrow>
        Contract_ScriptHash Hash160 contract = h')
   \<and> (assets d h = Some (Encoded a) \<and> ID a = h \<longrightarrow> GetAssetState d h = Inr a)
   \<and> (assets d h = Some (Encoded a) \<and> ID a \<noteq> h \<longrightarrow> GetAssetState d h = Inl ErrAssetID)
   \<and> (contracts d h' = Some (Encoded cs) \<and> Contract_ScriptHash Hash160 cs = h' \<longrightarrow>
        GetContractState Hash160 d h' = Inr cs)
   \<and> (contracts d h' = Some (Encoded cs) \<and> Contract_ScriptHash Hash160 cs \<noteq> h' \<longrightarrow>
        GetContractState Hash160 d h' = Inl ErrContractHash)"
  by (auto simp: GetAssetState_def GetContractState_def GetAndDecode_def
      split: sum.splits option.splits stored.splits if_splits)

lemma id_a_neq_b: "id_a \<noteq> id_b"
  by (simp add: id_a_def id_b_def)

lemma toy_hash160_hash_b: "toy_hash160 hash_b \<noteq> hash_a" "toy_hash160 hash_b \<noteq> hash_b"
  by (simp_all add: toy_hash160_def hash_a_def hash_b_def)

theorem C10_get_by_key_witness:
  "GetAssetState dao_mixed id_b = Inr asset_b \<and> ID asset_b = id_b
   \<and> GetContractState toy_hash160 dao_mixed (toy_hash160 hash_b) = Inr contract_b
   \<and> Contract_ScriptHash toy_hash160 contract_b = toy_hash160 hash_b
   \<and> GetAssetState dao_mixed id_a = Inl ErrAssetID
   \<and> GetContractState toy_hash160 dao_mixed hash_a = Inl ErrContractHash"
proof -
  have s1: "assets dao_mixed id_b = Some (Encoded asset_b) \<and> ID asset_b = id_b"
    by (simp add: dao_mixed_def asset_b_def id_a_neq_b)
  have s2: "contracts dao_mixed (toy_hash160 hash_b) = Some (Encoded contract_b)
      \<and> Contract_ScriptHash toy_hash160 contract_b = toy_hash160 hash_b"
    by (simp add: dao_mixed_def contract_b_def Contract_ScriptHash_def toy_hash160_hash_b)
  have s3: "assets dao_mixed id_a = Some (Encoded asset_b) \<and> ID asset_b \<noteq> id_a"
    by (simp add: dao_mixed_def asset_b_def id_a_neq_b [symmetric])
  have s4: "contracts dao_mixed hash_a = Some (Encoded contract_b)
      \<and> Contract_ScriptHash toy_hash160 contract_b \<noteq> hash_a"
    by (simp add: dao_mixed_def contract_b_def Contract_ScriptHash_def toy_hash160_hash_b)
  have a: "GetAssetState dao_mixed id_b = Inr asset_b
      \<and> GetContractState toy_hash160 dao_mixed (toy_hash160 hash_b) = Inr contract_b"
    using C10_get_by_key [of dao_mixed id_b _ toy_hash160 "toy_hash160 hash_b" _
        asset_b contract_b] s1 s2
    by simp
  have b: "ID asset_b = id_b
      \<and> Contract_ScriptHash toy_hash160 contract_b = toy_hash160 hash_b"
    using C10_get_by_key [of dao_mixed id_b asset_b toy_hash160 "toy_hash160 hash_b"
        contract_b] a
    by simp
  have c: "GetAssetState dao_mixed id_a = Inl ErrAssetID
      \<and> GetContractState toy_hash160 dao_mixed hash_a = Inl ErrContractHash"
    using C10_get_by_key [of dao_mixed id_a _ toy_hash160 hash_a _ asset_b contract_b] s3 s4
    by simp
  from a b c show ?thesis by simp
qed

section \<open>Checking several signatures: results\<close>

lemma CheckMultisigPar_drop:
  "CheckMultisigPar vf ks (s # ss) \<Longrightarrow> CheckMultisigPar vf ks ss"
proof (induction ks arbitrary: s ss)
  case Nil
  then show ?case by simp
next
  case (Cons k ks)
  show ?case
  proof (cases ss)
    case Nil
    then show ?thesis by simp
  next
    case (Cons s2 ss2)
    have rest: "CheckMultisigPar vf ks (s2 # ss2)"
      using Cons.prems Cons.IH [of s "s2 # ss2"] \<open>ss = s2 # ss2\<close>
      by (auto split: if_splits)
    then show ?thesis
      using Cons.IH [of s2 ss2] \<open>ss = s2 # ss2\<close> by simp
  qed
qed

lemma CheckMultisigPar_skip:
  "CheckMultisigPar vf ks ss \<Longrightarrow> CheckMultisigPar vf (k # ks) ss"
  by (cases ss) (auto dest: CheckMultisigPar_drop)

lemma CheckMultisigPar_ordered_match:
  "CheckMultisigPar vf ks ss = ordered_match vf ks ss"
proof
  show "CheckMultisigPar vf ks ss \<Longrightarrow> ordered_match vf ks ss"
  proof (induction vf ks ss rule: CheckMultisigPar.induct)
    case (1 vf pkeys)
    show ?case by (rule no_signature)
  next
    case (2 vf s sigs)
    then show ?case by simp
  next
    case (3 vf k pkeys s sigs)
    then show ?case
      by (cases "vf k s") (auto intro: match_key skip_key)
  qed
next
  show "ordered_match vf ks ss \<Longrightarrow> CheckMultisigPar vf ks ss"
  proof (induction rule: ordered_match.induct)
    case (no_signature ks)
    show ?case by simp
  next
    case (match_key k s ks ss)
    then show ?case by simp
  next
    case (skip_key ks ss k)
    then show ?case by (simp add: CheckMultisigPar_skip)
  qed
qed

lemma ecdsaCheckMultisig_popped:
  assumes "estack v = msgItem # st" and "TryBytes L msgItem = Inr msg"
    and "PopSigElements C st = (Inr pkeys, st1)" and "PopSigElements C st1 = (Inr sigs, st2)"
  shows "ecdsaCheckMultisig L C v =
     (if length pkeys < length sigs then Ret (Some ErrMoreSignatures, v\<lparr>estack := st2\<rparr>)
      else Ret (None, v\<lparr>estack := BoolItem (CheckMultisigPar (\<lambda>k s. Verify C k s (Sha256 C msg))
                                               pkeys sigs) # st2,
                       checkedHash := Some (Sha256 C msg)\<rparr>))"
  using assms by (simp add: ecdsaCheckMultisig_def PushVal_def Let_def)

text \<open>
  C9. With the message, the keys and the signatures popped, \<open>ecdsaCheckMultisig\<close> returns
  an error and pushes nothing when there are more signatures than keys; otherwise it sets
  the checked hash and pushes a boolean, which is true exactly when every signature matches
  a key not yet consumed, walking the keys in order.
\<close>

theorem C9_ecdsaCheckMultisig:
  "estack v = msgItem # st \<and> TryBytes L msgItem = Inr msg
     \<and> PopSigElements C st = (Inr pkeys, st1) \<and> PopSigElements C st1 = (Inr sigs, st2) \<longrightarrow>
   (length pkeys < length sigs \<longrightarrow>
      ecdsaCheckMultisig L C v = Ret (Some ErrMoreSignatures, v\<lparr>estack := st2\<rparr>))
   \<and> (length sigs \<le> length pkeys \<longrightarrow>
      ecdsaCheckMultisig L C v =
        Ret (None, v\<lparr>estack := BoolItem (ordered_match (\<lambda>k s. Verify C k s (Sha256 C msg))
                                           pkeys sigs) # st2,
                     checkedHash := Some (Sha256 C msg)\<rparr>))"
  by (auto simp: ecdsaCheckMultisig_popped CheckMultisigPar_ordered_match)

lemma PopSigElements_crypto0:
  "PopSigElements crypto0 (ArrayItem (map ByteArrayItem bs) # rest) = (Inr bs, rest)"
proof -
  have "item_bytes (map ByteArrayItem bs) = Some bs" by (induction bs) simp_all
  then show ?thesis by (simp add: crypto0_def)
qed

theorem C9_ecdsaCheckMultisig_witness:
  "ecdsaCheckMultisig conv0 crypto0
      (multisig_vm [[0x11], [0x22], [0x33]] [[0x11, 2, 1], [0x33, 2, 1]])
     = Ret (None, \<lparr>estack = [BoolItem True], contextScriptHash = hash_a,
                   checkedHash = Some [2, 1]\<rparr>)
   \<and> ecdsaCheckMultisig conv0 crypto0
      (multisig_vm [[0x11], [0x22], [0x33]] [[0x33, 2, 1], [0x11, 2, 1]])
     = Ret (None, \<lparr>estack = [BoolItem False], contextScriptHash = hash_a,
                   checkedHash = Some [2, 1]\<rparr>)
   \<and> ecdsaCheckMultisig conv0 crypto0
      (multisig_vm [[0x11], [0x22], [0x33]]
         [[0x11, 2, 1], [0x22, 2, 1], [0x33, 2, 1], [0x11, 2, 1]])
     = Ret (Some ErrMoreSignatures, \<lparr>estack = [], contextScriptHash = hash_a,
                                    checkedHash = None\<rparr>)"
proof -
  let ?keys = "[[0x11], [0x22], [0x33]] :: bytes list"
  have m: "TryBytes conv0 (ByteArrayItem [1, 2]) = Inr [1, 2]" by (simp add: conv0_def)
  have h: "Sha256 crypto0 [1, 2] = [2, 1]" by (simp add: crypto0_def)
  have vf: "(\<lambda>k s. Verify crypto0 k s [2, 1]) = (\<lambda>k s. s = k @ [2, 1])"
    by (simp add: crypto0_def)
  have 1: "ecdsaCheckMultisig conv0 crypto0 (multisig_vm ?keys [[0x11, 2, 1], [0x33, 2, 1]])
     = Ret (None, \<lparr>estack = [BoolItem True], contextScriptHash = hash_a,
                   checkedHash = Some [2, 1]\<rparr>)"
    using C9_ecdsaCheckMultisig [of "multisig_vm ?keys [[0x11, 2, 1], [0x33, 2, 1]]"
        "ByteArrayItem [1, 2]"
        "[ArrayItem (map ByteArrayItem ?keys), ArrayItem (map ByteArrayItem [[0x11, 2, 1], [0x33, 2, 1]])]"
        conv0 "[1, 2]" crypto0 ?keys "[ArrayItem (map ByteArrayItem [[0x11, 2, 1], [0x33, 2, 1]])]" "[[0x11, 2, 1], [0x33, 2, 1]]" "[]"]
      m PopSigElements_crypto0 [of ?keys "[ArrayItem (map ByteArrayItem [[0x11, 2, 1], [0x33, 2, 1]])]"]
      PopSigElements_crypto0 [of "[[0x11, 2, 1], [0x33, 2, 1]]" "[]"]
    by (simp add: multisig_vm_def h vf CheckMultisigPar_ordered_match [symmetric])
  have 2: "ecdsaCheckMultisig conv0 crypto0 (multisig_vm ?keys [[0x33, 2, 1], [0x11, 2, 1]])
     = Ret (None, \<lparr>estack = [BoolItem False], contextScriptHash = hash_a,
                   checkedHash = Some [2, 1]\<rparr>)"
    using C9_ecdsaCheckMultisig [of "multisig_vm ?keys [[0x33, 2, 1], [0x11, 2, 1]]"
        "ByteArrayItem [1, 2]"
        "[ArrayItem (map ByteArrayItem ?keys), ArrayItem (map ByteArrayItem [[0x33, 2, 1], [0x11, 2, 1]])]"
        conv0 "[1, 2]" crypto0 ?keys "[ArrayItem (map ByteArrayItem [[0x33, 2, 1], [0x11, 2, 1]])]" "[[0x33, 2, 1], [0x11, 2, 1]]" "[]"]
      m PopSigElements_crypto0 [of ?keys "[ArrayItem (map ByteArrayItem [[0x33, 2, 1], [0x11, 2, 1]])]"]
      PopSigElements_crypto0 [of "[[0x33, 2, 1], [0x11, 2, 1]]" "[]"]
    by (simp add: multisig_vm_def h vf CheckMultisigPar_ordered_match [symmetric])
  have 3: "ecdsaCheckMultisig conv0 crypto0
      (multisig_vm ?keys [[0x11, 2, 1], [0x22, 2, 1], [0x33, 2, 1], [0x11, 2, 1]])
     = Ret (Some ErrMoreSignatures, \<lparr>estack = [], contextScriptHash = hash_a,
                                    checkedHash = None\<rparr>)"
    using C9_ecdsaCheckMultisig [of
        "multisig_vm ?keys [[0x11, 2, 1], [0x22, 2, 1], [0x33, 2, 1], [0x11, 2, 1]]"
        "ByteArrayItem [1, 2]"
        "[ArrayItem (map ByteArrayItem ?keys), ArrayItem (map ByteArrayItem [[0x11, 2, 1], [0x22, 2, 1], [0x33, 2, 1], [0x11, 2, 1]])]"
        conv0 "[1, 2]" crypto0 ?keys "[ArrayItem (map ByteArrayItem [[0x11, 2, 1], [0x22, 2, 1], [0x33, 2, 1], [0x11, 2, 1]])]"
        "[[0x11, 2, 1], [0x22, 2, 1], [0x33, 2, 1], [0x11, 2, 1]]" "[]"]
      m PopSigElements_crypto0 [of ?keys "[ArrayItem (map ByteArrayItem [[0x11, 2, 1], [0x22, 2, 1], [0x33, 2, 1], [0x11, 2, 1]])]"]
      PopSigElements_crypto0 [of "[[0x11, 2, 1], [0x22, 2, 1], [0x33, 2, 1], [0x11, 2, 1]]" "[]"]
    by (simp add: multisig_vm_def)
  from 1 2 3 show ?thesis by simp
qed

section \<open>The validators of the governance token: results\<close>

lemma set_insert_by [simp]: "set (insert_by lt x xs) = insert x (set xs)"
  by (induction xs) auto

lemma distinct_map_insert_by [simp]:
  "distinct (map f (insert_by lt x xs)) = (f x \<notin> f ` set xs \<and> distinct (map f xs))"
  by (induction xs) auto

lemma set_sort_Slice [simp]: "set (sort_Slice lt xs) = set xs"
  by (induction xs) (simp_all add: sort_Slice_def)

lemma distinct_map_sort_Slice [simp]:
  "distinct (map f (sort_Slice lt xs)) = distinct (map f xs)"
proof (induction xs)
  case Nil
  show ?case by (simp add: sort_Slice_def)
next
  case (Cons x xs)
  have "sort_Slice lt (x # xs) = insert_by lt x (sort_Slice lt xs)"
    by (simp add: sort_Slice_def)
  then show ?case using Cons by simp
qed

lemma Unique_from_props:
  "distinct u \<Longrightarrow> distinct (Unique_from u ks) \<and> set (Unique_from u ks) = set u \<union> set ks"
  by (induction u ks rule: Unique_from.induct) auto

lemma Unique_props: "distinct (Unique ks) \<and> set (Unique ks) = set ks"
  using Unique_from_props [of "[]" ks] by (simp add: Unique_def)

lemma top_up_props:
  assumes "distinct r" and "int (length r) \<le> count"
  shows "distinct (top_up count r ks)
       \<and> set (top_up count r ks) \<subseteq> set r \<union> set ks
       \<and> int (length (top_up count r ks)) = min count (int (card (set r \<union> set ks)))"
  using assms
proof (induction count r ks rule: top_up.induct)
  case (1 count result)
  then show ?case by (simp add: distinct_card)
next
  case (2 count result sb sbs)
  show ?case
  proof (cases "int (length result) < count")
    case True
    let ?r = "if sb \<in> set result then result else result @ [sb]"
    have d: "distinct ?r" using "2.prems" by simp
    have l: "int (length ?r) \<le> count" using True by simp
    have s: "set ?r \<union> set sbs = set result \<union> set (sb # sbs)" by auto
    from "2.IH" [OF True d l] True s show ?thesis by auto
  next
    case False
    then have e: "int (length result) = count" using "2.prems" by simp
    have "card (set result) \<le> card (set result \<union> set (sb # sbs))"
      by (rule card_mono) auto
    then have "count \<le> int (card (set result \<union> set (sb # sbs)))"
      using e "2.prems"(1) by (simp add: distinct_card)
    then show ?thesis using False e "2.prems" by auto
  qed
qed

lemma selected_keys_props:
  fixes vs :: "('k::linorder) Validator list"
  assumes "distinct (map PublicKey vs)" and "0 \<le> count"
  shows "distinct (selected_keys count sb vs)
       \<and> set (selected_keys count sb vs) \<subseteq> candidate_keys sb vs
       \<and> int (length (selected_keys count sb vs)) = min count (int (card (candidate_keys sb vs)))"
proof -
  let ?u = "Unique sb"
  let ?r = "map PublicKey
              (filter (\<lambda>validator. RegisteredAndHasVotes validator
                         \<or> PublicKey validator \<in> set ?u) (sort_Slice validator_less vs))"
  have u: "distinct ?u" "set ?u = set sb" using Unique_props [of sb] by simp_all
  have d: "distinct ?r" using assms(1) by (simp add: distinct_map_filter)
  have c: "set ?r \<union> set sb = candidate_keys sb vs"
    by (auto simp: candidate_keys_def u)
  have f: "finite (candidate_keys sb vs)" by (simp add: candidate_keys_def)
  show ?thesis
  proof (cases "int (length ?r) \<ge> count")
    case True
    then have sel: "selected_keys count sb vs = take (nat count) ?r"
      by (simp add: selected_keys_def Let_def)
    have "card (set ?r) \<le> card (candidate_keys sb vs)"
      using c by (intro card_mono f) auto
    moreover have "card (set ?r) = length ?r" using d by (rule distinct_card)
    ultimately have "count \<le> int (card (candidate_keys sb vs))" using True by simp
    moreover have "int (length (take (nat count) ?r)) = count" using True assms(2) by simp
    moreover have "set (take (nat count) ?r) \<subseteq> candidate_keys sb vs"
      using c set_take_subset [of "nat count" ?r] by blast
    moreover have "distinct (take (nat count) ?r)" using d by (rule distinct_take)
    ultimately show ?thesis unfolding sel by simp
  next
    case False
    then have sel: "selected_keys count sb vs = top_up count ?r ?u"
      by (simp add: selected_keys_def Let_def)
    have l: "int (length ?r) \<le> count" using False by simp
    from top_up_props [OF d l, of ?u] c show ?thesis unfolding sel u by simp
  qed
qed


lemma decoded_keyed:
  assumes "list_all keyed_entry kvs" and "distinct (map fst kvs)"
  shows "distinct (map PublicKey (decoded kvs))
       \<and> set (map PublicKey (decoded kvs)) \<subseteq> fst ` set kvs"
  using assms
proof (induction kvs rule: decoded.induct)
  case 1
  then show ?case by simp
next
  case (2 k kvs)
  then show ?case by auto
next
  case (3 k v kvs)
  then have "PublicKey v = k" by (simp add: keyed_entry_def)
  with 3 show ?case by auto
qed

lemma validators_keyed_distinct:
  "validators_keyed d \<Longrightarrow> distinct (map PublicKey (GetValidators d))"
  using decoded_keyed [of "validators d"] by (simp add: validators_keyed_def GetValidators_def)

lemma store_put_keys: "fst ` set (store_put k v kvs) = insert k (fst ` set kvs)"
proof (induction kvs)
  case Nil
  then show ?case by simp
next
  case (Cons e kvs)
  obtain k' v' where e: "e = (k', v')" by (cases e)
  show ?case
  proof (cases "k' = k")
    case True
    with e show ?thesis by simp
  next
    case False
    with Cons e show ?thesis by (simp add: insert_commute)
  qed
qed

lemma store_put_distinct:
  "distinct (map fst kvs) \<Longrightarrow> distinct (map fst (store_put k v kvs))"
proof (induction kvs)
  case Nil
  then show ?case by simp
next
  case (Cons e kvs)
  obtain k' v' where e: "e = (k', v')" by (cases e)
  show ?case
  proof (cases "k' = k")
    case True
    with Cons e show ?thesis by simp
  next
    case False
    have "k' \<notin> fst ` set (store_put k v kvs)"
      using Cons.prems False e by (simp add: store_put_keys)
    with Cons False e show ?thesis by simp
  qed
qed

lemma store_put_keyed:
  "list_all keyed_entry kvs \<Longrightarrow> keyed_entry (k, v) \<Longrightarrow>
     list_all keyed_entry (store_put k v kvs)"
  by (induction kvs) auto

text \<open>The store stays keyed when \<open>PutValidatorState\<close> writes a record.\<close>

lemma PutValidatorState_keyed:
  "validators_keyed d \<Longrightarrow> validators_keyed (PutValidatorState vs d)"
  by (simp add: validators_keyed_def PutValidatorState_def store_put_distinct store_put_keyed
      keyed_entry_def)
lemma getValidators_selected:
  assumes "GetValidatorsCount S (dao m) = Inr vc" and "vc \<noteq> []"
    and "GetStandByValidators (bc m) = Inr sb"
  shows "getValidators S Bytes m args =
     Ret (ArrayItem (map (\<lambda>p. ByteArrayItem (Bytes p))
            (sort (selected_keys (committee_size S vc sb) sb (GetValidators (dao m))))), m)"
proof -
  have "(if GetWeightedAverage S vc < int (length sb) then int (length sb)
         else GetWeightedAverage S vc) = committee_size S vc sb"
    by (simp add: committee_size_def max_def)
  then show ?thesis
    using assms by (simp add: getValidators_def pubsToArray_def Let_def)
qed

lemma getValidators_empty_count:
  assumes "GetValidatorsCount S (dao m) = Inr []" and "GetStandByValidators (bc m) = Inr sb"
  shows "getValidators S Bytes m args = Ret (ArrayItem (map (\<lambda>p. ByteArrayItem (Bytes p)) sb), m)"
  using assms by (simp add: getValidators_def pubsToArray_def)

lemma getValidators_votes4:
  "getValidators state0 nat_bytes machine_votes4 [] =
     Ret (ArrayItem [ByteArrayItem [10], ByteArrayItem [20]], machine_votes4)"
  by (simp add: getValidators_def GetValidatorsCount_def GetAndDecode_def machine_votes4_def
      state0_def weighted_average_def enumerate_eq_zip selected_keys_def sort_Slice_def
      validator_less_def RegisteredAndHasVotes_def GetValidators_def Unique_def
      pubsToArray_def nat_bytes_def Let_def)

text \<open>
  C7, as claimed: the list that \<open>getValidators\<close> returns has at least the committee size as
  its length. With the standby validators 20 and 10, four stored validators that have votes
  and are not registered, and tallies whose weighted average is four, the committee size is
  four and the list has the two standby keys: the result is topped up from the standby
  validators only.
\<close>

theorem C7_fewer_than_committee_size:
  "getValidators state0 nat_bytes machine_votes4 [] =
     Ret (ArrayItem [ByteArrayItem [10], ByteArrayItem [20]], machine_votes4)
   \<and> GetValidatorsCount state0 (dao machine_votes4) = Inr [0, 0, 0, 1]
   \<and> GetStandByValidators (bc machine_votes4) = Inr [20, 10]
   \<and> GetWeightedAverage state0 [0, 0, 0, 1] = 4
   \<and> committee_size state0 [0, 0, 0, 1] [20, 10 :: nat] = 4"
  using getValidators_votes4
  by (simp add: GetValidatorsCount_def GetAndDecode_def machine_votes4_def state0_def
      weighted_average_def enumerate_eq_zip committee_size_def)

text \<open>
  C7, amended. When the validators count is read and not empty, the standby validators are
  known and the validators of the store are keyed by their public keys, \<open>getValidators\<close>
  returns the
  byte forms of a list of keys that is sorted ascending, has no key twice, consists of keys
  of stored validators that are registered with votes and of standby keys, and whose length
  is the smaller of the committee size and the number of those candidate keys: it is never
  longer than the committee size, and as long as it whenever there are enough candidates.
  For an empty validators count the standby validators are returned as they are.
\<close>

theorem C7_getValidators:
  fixes m :: "('k::linorder) machine"
  shows
  "(GetValidatorsCount S (dao m) = Inr vc \<and> vc \<noteq> [] \<and> GetStandByValidators (bc m) = Inr sb
      \<and> validators_keyed (dao m) \<longrightarrow>
      (\<exists>keys. getValidators S Bytes m args =
                 Ret (ArrayItem (map (\<lambda>p. ByteArrayItem (Bytes p)) keys), m)
          \<and> sorted keys \<and> distinct keys
          \<and> set keys \<subseteq> candidate_keys sb (GetValidators (dao m))
          \<and> int (length keys) =
              min (committee_size S vc sb)
                  (int (card (candidate_keys sb (GetValidators (dao m)))))))
   \<and> (GetValidatorsCount S (dao m) = Inr [] \<and> GetStandByValidators (bc m) = Inr sb \<longrightarrow>
        getValidators S Bytes m args =
          Ret (ArrayItem (map (\<lambda>p. ByteArrayItem (Bytes p)) sb), m))"
proof (intro conjI impI)
  assume a: "GetValidatorsCount S (dao m) = Inr vc \<and> vc \<noteq> []
      \<and> GetStandByValidators (bc m) = Inr sb
      \<and> validators_keyed (dao m)"
  let ?sel = "selected_keys (committee_size S vc sb) sb (GetValidators (dao m))"
  have c: "0 \<le> committee_size S vc sb" by (simp add: committee_size_def)
  from a have d: "distinct (map PublicKey (GetValidators (dao m)))"
    by (simp add: validators_keyed_distinct)
  have g: "getValidators S Bytes m args =
      Ret (ArrayItem (map (\<lambda>p. ByteArrayItem (Bytes p)) (sort ?sel)), m)"
    using a by (simp add: getValidators_selected)
  from selected_keys_props [OF d c, of sb]
  have "sorted (sort ?sel) \<and> distinct (sort ?sel)
      \<and> set (sort ?sel) \<subseteq> candidate_keys sb (GetValidators (dao m))
      \<and> int (length (sort ?sel)) =
          min (committee_size S vc sb) (int (card (candidate_keys sb (GetValidators (dao m)))))"
    by simp
  with g show "\<exists>keys. getValidators S Bytes m args =
                 Ret (ArrayItem (map (\<lambda>p. ByteArrayItem (Bytes p)) keys), m)
          \<and> sorted keys \<and> distinct keys
          \<and> set keys \<subseteq> candidate_keys sb (GetValidators (dao m))
          \<and> int (length keys) =
              min (committee_size S vc sb)
                  (int (card (candidate_keys sb (GetValidators (dao m)))))"
    by blast
next
  assume "GetValidatorsCount S (dao m) = Inr [] \<and> GetStandByValidators (bc m) = Inr sb"
  then show "getValidators S Bytes m args =
          Ret (ArrayItem (map (\<lambda>p. ByteArrayItem (Bytes p)) sb), m)"
    by (simp add: getValidators_empty_count)
qed

theorem C7_getValidators_witness:
  "GetValidatorsCount state0 (dao machine_votes3) = Inr [0, 0, 2, 0]
   \<and> GetStandByValidators (bc machine_votes3) = Inr [20, 10]
   \<and> validators_keyed (dao machine_votes3)
   \<and> committee_size state0 [0, 0, 2, 0] [20, 10 :: nat] = 3
   \<and> candidate_keys [20, 10] (GetValidators (dao machine_votes3)) = {10, 20, 30, 40}
   \<and> getValidators state0 nat_bytes machine_votes3 [] =
       Ret (ArrayItem [ByteArrayItem [20], ByteArrayItem [30], ByteArrayItem [40]],
            machine_votes3)
   \<and> GetValidatorsCount state_empty (dao (machine0 None)) = Inr []
   \<and> getValidators state_empty nat_bytes (machine0 None) [] = Ret (ArrayItem [], machine0 None)"
proof -
  have vc: "GetValidatorsCount state0 (dao machine_votes3) = Inr [0, 0, 2, 0]"
    by (simp add: GetValidatorsCount_def GetAndDecode_def machine_votes3_def)
  have sb: "GetStandByValidators (bc machine_votes3) = Inr [20, 10]"
    by (simp add: machine_votes3_def)
  have vs: "GetValidators (dao machine_votes3) =
      [\<lparr>PublicKey = 30, Registered = True, Votes = 5\<rparr>,
       \<lparr>PublicKey = 40, Registered = True, Votes = 7\<rparr>,
       \<lparr>PublicKey = 50, Registered = False, Votes = 9\<rparr>]"
    by (simp add: GetValidators_def machine_votes3_def)
  have vk: "validators_keyed (dao machine_votes3)"
    by (simp add: validators_keyed_def keyed_entry_def machine_votes3_def)
  have cs: "committee_size state0 [0, 0, 2, 0] [20, 10 :: nat] = 3"
    by (simp add: committee_size_def state0_def weighted_average_def enumerate_eq_zip)
  have ck: "candidate_keys [20, 10] (GetValidators (dao machine_votes3)) = {10, 20, 30, 40}"
    by (auto simp add: vs candidate_keys_def RegisteredAndHasVotes_def)
  have g: "getValidators state0 nat_bytes machine_votes3 [] =
       Ret (ArrayItem [ByteArrayItem [20], ByteArrayItem [30], ByteArrayItem [40]],
            machine_votes3)"
    using getValidators_selected [OF vc _ sb, of nat_bytes "[]"]
    by (simp add: cs vs selected_keys_def sort_Slice_def validator_less_def
        RegisteredAndHasVotes_def Unique_def nat_bytes_def Let_def)
  have vc0: "GetValidatorsCount state_empty (dao (machine0 None)) = Inr []"
    by (simp add: GetValidatorsCount_def GetAndDecode_def machine0_def ledger_def
        state_empty_def)
  have sb0: "GetStandByValidators (bc (machine0 None)) = Inr []"
    by (simp add: machine0_def ledger_def bc0_def)
  have "\<exists>keys. getValidators state0 nat_bytes machine_votes3 [] =
                 Ret (ArrayItem (map (\<lambda>p. ByteArrayItem (nat_bytes p)) keys), machine_votes3)
          \<and> sorted keys \<and> distinct keys \<and> set keys \<subseteq> {10, 20, 30, 40}
          \<and> int (length keys) = 3"
    using C7_getValidators [of state0 machine_votes3 "[0, 0, 2, 0]" "[20, 10]" nat_bytes "[]"]
      vc sb vk cs ck
    by simp
  moreover have "getValidators state_empty nat_bytes (machine0 None) [] =
      Ret (ArrayItem [], machine0 None)"
    using C7_getValidators [of state_empty "machine0 None" "[]" "[]" nat_bytes "[]"] vc0 sb0
    by simp
  ultimately show ?thesis using vc sb vk cs ck g vc0 by simp
qed

end
